theory Spec2Isabelle
  imports Main "HOL-Library.Word" "HOL-Library.Sublist"
begin

section \<open>The remote-debugging transport of lldebug (net/remoteengine.cpp)\<close>

subsection \<open>Commands\<close>

text \<open>
  Modelled from the spec: the enum \<^verbatim>\<open>RemoteCommandType\<close> is declared in
  \<^verbatim>\<open>net/remoteengine.h\<close>, which is not among the sources. Its constants here are the
  \<^verbatim>\<open>REMOTECOMMANDTYPE_...\<close> that \<^verbatim>\<open>remoteengine.cpp\<close> names, the message kinds of the spec.
\<close>

datatype RemoteCommandType =
    START_CONNECTION | END_CONNECTION | CHANGED_STATE | UPDATE_SOURCE | FORCE_UPDATESOURCE
  | ADDED_SOURCE | SAVE_SOURCE | SET_UPDATECOUNT | SET_BREAKPOINT | REMOVE_BREAKPOINT
  | CHANGED_BREAKPOINTLIST | BREAK | RESUME | STEPINTO | STEPOVER | STEPRETURN | OUTPUT_LOG
  | EVAL | REQUEST_FIELDSVARLIST | REQUEST_LOCALVARLIST | REQUEST_ENVIRONVARLIST
  | REQUEST_EVALVARLIST | REQUEST_GLOBALVARLIST | REQUEST_REGISTRYVARLIST | REQUEST_STACKLIST
  | VALUE_STRING | VALUE_VARLIST | VALUE_BACKTRACELIST | SUCCESSED | FAILED

text \<open>
  Modelled from the spec: the struct \<^verbatim>\<open>RemoteCommandHeader\<close> is declared in the missing
  \<^verbatim>\<open>net/remoteengine.h\<close>. It has the four fields that \<^verbatim>\<open>InitCommandHeader\<close> assigns, the
  spec's type, peerId, commandId and payloadSize: \<^verbatim>\<open>ctxId\<close> is a C++ \<^verbatim>\<open>int\<close> (it is only
  assigned and compared, never computed with, so it is an \<open>int\<close> here), \<^verbatim>\<open>commandId\<close> and
  \<^verbatim>\<open>dataSize\<close> are unsigned integers, 32 bits wide (\<^verbatim>\<open>dataSize\<close> is assigned through a
  cast to \<^verbatim>\<open>boost::uint32_t\<close>). The payload \<^verbatim>\<open>RemoteCommandData\<close> is an opaque byte
  buffer.
\<close>

record RemoteCommandHeader =
  type :: RemoteCommandType
  ctxId :: int
  commandId :: "32 word"
  dataSize :: "32 word"

type_synonym RemoteCommandData = "8 word list"

definition GetSize :: "RemoteCommandData \<Rightarrow> nat" where
  "GetSize d = length d"

text \<open>
  Modelled from the spec: the class \<^verbatim>\<open>RemoteCommand\<close> (header, payload and optional response
  continuation) and its accessors are declared in the missing \<^verbatim>\<open>net/remoteengine.h\<close>; the
  accessors read the header's fields. A callback \<^verbatim>\<open>RemoteCommandCallback\<close> is a function
  object that may be empty: \<open>None\<close> is the empty one, \<open>Some f\<close> holds the continuation \<open>f\<close>.
\<close>

type_synonym 'cb RemoteCommandCallback = "'cb option"

record 'cb RemoteCommand =
  m_header :: RemoteCommandHeader
  m_data :: RemoteCommandData
  m_response :: "'cb RemoteCommandCallback"

text \<open>The constructor \<^verbatim>\<open>RemoteCommand(header, data)\<close>: no continuation attached.\<close>

definition RemoteCommand :: "RemoteCommandHeader \<Rightarrow> RemoteCommandData \<Rightarrow> 'cb RemoteCommand" where
  "RemoteCommand h d = \<lparr>m_header = h, m_data = d, m_response = None\<rparr>"

definition GetType :: "'cb RemoteCommand \<Rightarrow> RemoteCommandType" where
  "GetType c = type (m_header c)"

definition GetCtxId :: "'cb RemoteCommand \<Rightarrow> int" where
  "GetCtxId c = ctxId (m_header c)"

definition GetCommandId :: "'cb RemoteCommand \<Rightarrow> 32 word" where
  "GetCommandId c = commandId (m_header c)"

definition GetDataSize :: "'cb RemoteCommand \<Rightarrow> 32 word" where
  "GetDataSize c = dataSize (m_header c)"

definition SetResponse :: "'cb RemoteCommandCallback \<Rightarrow> 'cb RemoteCommand \<Rightarrow> 'cb RemoteCommand" where
  "SetResponse r c = c\<lparr>m_response := r\<rparr>"

text \<open>
  Modelled from the spec: the struct \<^verbatim>\<open>WaitResponseCommand\<close> of the missing header, the
  spec's pending request: the header of the command sent and the continuation.
\<close>

record 'cb WaitResponseCommand =
  header :: RemoteCommandHeader
  response :: "'cb RemoteCommandCallback"

subsection \<open>SocketBase: one TCP connection\<close>

text \<open>
  The asynchronous I/O of boost::asio is modelled by what the socket object has asked for:
  \<^item> \<open>io_posted\<close>: the handlers handed to the I/O service with \<^verbatim>\<open>GetService().post(...)\<close>,
    oldest first;
  \<^item> \<open>async_writes\<close>: the \<^verbatim>\<open>async_write\<close> operations issued whose completion handler has
    not run yet, oldest first, each with the \<^verbatim>\<open>deleteCommand\<close> flag bound into its
    handler and the buffer it writes;
  \<^item> \<open>wire\<close>: every buffer handed to \<^verbatim>\<open>async_write\<close> so far, in the order of the calls;
  \<^item> \<open>async_reads\<close>: the \<^verbatim>\<open>async_read\<close> operations issued whose handler has not run yet;
  \<^item> \<open>m_socket_is_open\<close>: whether the asio socket \<^verbatim>\<open>m_socket\<close> is open: it is opened by a
    successful accept or connect and closed by \<^verbatim>\<open>m_socket.close()\<close>.
\<close>

datatype 'cb handler = DoWrite "'cb RemoteCommand" | DoClose | DoConnected

datatype buffer = HeaderBuf RemoteCommandHeader | DataBuf RemoteCommandData

datatype 'cb read_op = ReadHeader | ReadData "'cb RemoteCommand"

record 'cb SocketBase =
  m_isConnected :: bool
  m_writeCommandQueue :: "'cb RemoteCommand list"
  m_socket_is_open :: bool
  io_posted :: "'cb handler list"
  async_writes :: "(bool \<times> buffer) list"
  wire :: "buffer list"
  async_reads :: "'cb read_op list"

text \<open>The constructor: not connected, nothing queued, nothing asked of the I/O service.\<close>

definition SocketBase :: "'cb SocketBase" where
  "SocketBase = \<lparr>m_isConnected = False, m_writeCommandQueue = [], m_socket_is_open = False,
     io_posted = [], async_writes = [], wire = [], async_reads = []\<rparr>"

definition post :: "'cb handler \<Rightarrow> ('cb, 'z) SocketBase_scheme \<Rightarrow> ('cb, 'z) SocketBase_scheme" where
  "post h s = s\<lparr>io_posted := io_posted s @ [h]\<rparr>"

definition async_write :: "bool \<Rightarrow> buffer \<Rightarrow> ('cb, 'z) SocketBase_scheme \<Rightarrow> ('cb, 'z) SocketBase_scheme" where
  "async_write deleteCommand b s =
     s\<lparr>async_writes := async_writes s @ [(deleteCommand, b)], wire := wire s @ [b]\<rparr>"

definition async_read :: "'cb read_op \<Rightarrow> ('cb, 'z) SocketBase_scheme \<Rightarrow> ('cb, 'z) SocketBase_scheme" where
  "async_read r s = s\<lparr>async_reads := async_reads s @ [r]\<rparr>"

text \<open>The public methods hand their work to the I/O service.\<close>

definition Write :: "RemoteCommandHeader \<Rightarrow> RemoteCommandData \<Rightarrow> ('cb, 'z) SocketBase_scheme
    \<Rightarrow> ('cb, 'z) SocketBase_scheme" where
  "Write h d s = post (DoWrite (RemoteCommand h d)) s"


definition Connected :: "('cb, 'z) SocketBase_scheme \<Rightarrow> ('cb, 'z) SocketBase_scheme" where
  "Connected s = post DoConnected s"

definition IsConnected :: "('cb, 'z) SocketBase_scheme \<Rightarrow> bool" where
  "IsConnected s = m_isConnected s"

definition asyncReadCommand :: "('cb, 'z) SocketBase_scheme \<Rightarrow> ('cb, 'z) SocketBase_scheme" where
  "asyncReadCommand s = async_read ReadHeader s"

definition connected :: "('cb, 'z) SocketBase_scheme \<Rightarrow> ('cb, 'z) SocketBase_scheme" where
  "connected s = (if \<not> m_isConnected s then asyncReadCommand (s\<lparr>m_isConnected := True\<rparr>) else s)"

definition doClose :: "('cb, 'z) SocketBase_scheme \<Rightarrow> ('cb, 'z) SocketBase_scheme" where
  "doClose s = s\<lparr>m_socket_is_open := False, m_isConnected := False\<rparr>"

text \<open>
  \<^verbatim>\<open>asyncWrite\<close>: a command without payload is one \<^verbatim>\<open>async_write\<close> of the header whose
  handler deletes the command; a command with payload is two \<^verbatim>\<open>async_write\<close> calls, issued
  one after the other without waiting: the header (handler does not delete) and the payload
  of \<^verbatim>\<open>GetDataSize()\<close> bytes (handler deletes). The call of \<^verbatim>\<open>SaveLog\<close>, which is not
  among the sources and only logs, is left out.
\<close>

definition asyncWrite :: "'cb RemoteCommand \<Rightarrow> ('cb, 'z) SocketBase_scheme \<Rightarrow> ('cb, 'z) SocketBase_scheme" where
  "asyncWrite command s =
     (if GetDataSize command = 0 then
        async_write True (HeaderBuf (m_header command)) s
      else
        async_write True (DataBuf (take (unat (GetDataSize command)) (m_data command)))
          (async_write False (HeaderBuf (m_header command)) s))"

definition doWrite :: "'cb RemoteCommand \<Rightarrow> ('cb, 'z) SocketBase_scheme \<Rightarrow> ('cb, 'z) SocketBase_scheme" where
  "doWrite command s =
     (let isProgress = (m_writeCommandQueue s \<noteq> []);
          s1 = s\<lparr>m_writeCommandQueue := m_writeCommandQueue s @ [command]\<rparr>
      in if \<not> isProgress then asyncWrite (hd (m_writeCommandQueue s1)) s1 else s1)"

text \<open>
  \<^verbatim>\<open>handleWrite\<close>, the completion handler of every \<^verbatim>\<open>async_write\<close>. \<^verbatim>\<open>pop()\<close> is \<open>tl\<close>;
  on an empty \<^verbatim>\<open>std::queue\<close> it is undefined in C++, and the invariant \<open>write_inv\<close> below
  shows that the queue is not empty whenever a write is outstanding.
\<close>

definition handleWrite :: "bool \<Rightarrow> bool \<Rightarrow> ('cb, 'z) SocketBase_scheme \<Rightarrow> ('cb, 'z) SocketBase_scheme" where
  "handleWrite deleteCommand error s =
     (if \<not> error then
        (if deleteCommand then
           (let s1 = s\<lparr>m_writeCommandQueue := tl (m_writeCommandQueue s)\<rparr>
            in if m_writeCommandQueue s1 \<noteq> [] then asyncWrite (hd (m_writeCommandQueue s1)) s1
               else s1)
         else s)
      else doClose s)"

subsection \<open>RemoteEngine\<close>

text \<open>
  Modelled from the spec: the members of the class \<^verbatim>\<open>RemoteEngine\<close> are declared in the
  missing \<^verbatim>\<open>net/remoteengine.h\<close>; these are the members that \<^verbatim>\<open>remoteengine.cpp\<close> uses.
  The engine owns the command-id counter (an unsigned integer of the header field's
  width), the peer identity \<^verbatim>\<open>m_ctxId\<close>, the list of requests waiting for their reply, the
  queue of received commands and the socket (\<open>None\<close> is the null pointer). \<open>m_thread\<close> tells
  whether the service thread object exists.
\<close>

record 'cb RemoteEngine =
  m_isThreadActive :: bool
  m_thread :: bool
  m_commandIdCounter :: "32 word"
  m_ctxId :: int
  m_waitResponseCommandList :: "'cb WaitResponseCommand list"
  m_readCommandQueue :: "'cb RemoteCommand list"
  m_socket :: "'cb SocketBase option"

definition RemoteEngine :: "'cb RemoteEngine" where
  "RemoteEngine = \<lparr>m_isThreadActive = False, m_thread = False, m_commandIdCounter = 0,
     m_ctxId = - 1, m_waitResponseCommandList = [], m_readCommandQueue = [], m_socket = None\<rparr>"

definition SetCtxId :: "int \<Rightarrow> 'cb RemoteEngine \<Rightarrow> 'cb RemoteEngine" where
  "SetCtxId c e = (if m_ctxId e \<noteq> c then e\<lparr>m_ctxId := c\<rparr> else e)"

definition Engine_IsConnected :: "'cb RemoteEngine \<Rightarrow> bool" where
  "Engine_IsConnected e = (case m_socket e of None \<Rightarrow> False | Some s \<Rightarrow> IsConnected s)"

definition HasCommand :: "'cb RemoteEngine \<Rightarrow> bool" where
  "HasCommand e = (m_readCommandQueue e \<noteq> [])"

text \<open>\<^verbatim>\<open>front()\<close> of an empty queue is undefined in C++: \<open>None\<close>.\<close>

definition GetCommand :: "'cb RemoteEngine \<Rightarrow> 'cb RemoteCommand option" where
  "GetCommand e = (case m_readCommandQueue e of [] \<Rightarrow> None | c # _ \<Rightarrow> Some c)"

definition PopCommand :: "'cb RemoteEngine \<Rightarrow> 'cb RemoteEngine option" where
  "PopCommand e = (case m_readCommandQueue e of [] \<Rightarrow> None
     | _ # cs \<Rightarrow> Some (e\<lparr>m_readCommandQueue := cs\<rparr>))"

text \<open>
  The scan of \<^verbatim>\<open>HandleReadCommand\<close> over the waiting list: the first entry with the
  command's \<^verbatim>\<open>ctxId\<close> and \<^verbatim>\<open>commandId\<close> is erased and its callback set on the command;
  the scan stops there (\<^verbatim>\<open>break\<close>).
\<close>

fun findResponse :: "'cb RemoteCommand \<Rightarrow> 'cb WaitResponseCommand list
    \<Rightarrow> 'cb RemoteCommand \<times> 'cb WaitResponseCommand list" where
  "findResponse command [] = (command, [])"
| "findResponse command (w # ws) =
     (if GetCtxId command = ctxId (header w) \<and> GetCommandId command = commandId (header w)
      then (SetResponse (response w) command, ws)
      else (let (command', ws') = findResponse command ws in (command', w # ws')))"

text \<open>
  \<^verbatim>\<open>HandleReadCommand\<close>: the scan, then the \<^verbatim>\<open>switch\<close> on the command's type (the cases
  \<^verbatim>\<open>START_CONNECTION\<close>, \<^verbatim>\<open>END_CONNECTION\<close> and \<^verbatim>\<open>default\<close>), then the push onto the
  queue of received commands.
\<close>

definition HandleReadCommand :: "'cb RemoteCommand \<Rightarrow> 'cb RemoteEngine \<Rightarrow> 'cb RemoteEngine" where
  "HandleReadCommand command0 e =
     (let (command, ws) = findResponse command0 (m_waitResponseCommandList e);
          e1 = e\<lparr>m_waitResponseCommandList := ws\<rparr>;
          e2 = (if GetType command = START_CONNECTION then SetCtxId (GetCtxId command) e1
                else if GetType command = END_CONNECTION then SetCtxId (- 1) e1
                else if m_ctxId e1 < 0 then SetCtxId (GetCtxId command) e1 else e1)
      in e2\<lparr>m_readCommandQueue := m_readCommandQueue e2 @ [command]\<rparr>)"

text \<open>
  \<^verbatim>\<open>InitCommandHeader(type, dataSize, commandId)\<close>: \<^verbatim>\<open>dataSize\<close> is a \<^verbatim>\<open>size_t\<close> cast to
  32 bits, \<^verbatim>\<open>commandId\<close> is a C++ \<^verbatim>\<open>int\<close> converted to the unsigned field. With
  \<^verbatim>\<open>commandId == 0\<close> the header takes the counter, which then advances by 2 (wrapping at
  \<open>2 ^ 32\<close>). The result is the header and the engine after the call.
\<close>

definition InitCommandHeader :: "RemoteCommandType \<Rightarrow> nat \<Rightarrow> int \<Rightarrow> 'cb RemoteEngine
    \<Rightarrow> RemoteCommandHeader \<times> 'cb RemoteEngine" where
  "InitCommandHeader t n cid e =
     (let h = \<lparr>type = t, ctxId = m_ctxId e, commandId = 0, dataSize = of_nat n\<rparr>
      in if cid = 0 then
           (h\<lparr>commandId := m_commandIdCounter e\<rparr>,
            e\<lparr>m_commandIdCounter := m_commandIdCounter e + 2\<rparr>)
         else (h\<lparr>commandId := word_of_int cid\<rparr>, e))"

text \<open>
  \<^verbatim>\<open>m_socket->Write(header, data)\<close>: dereferencing a null \<^verbatim>\<open>m_socket\<close> is undefined in C++,
  here the result \<open>None\<close>.
\<close>

definition socket_Write :: "RemoteCommandHeader \<Rightarrow> RemoteCommandData \<Rightarrow> 'cb RemoteEngine
    \<Rightarrow> 'cb RemoteEngine option" where
  "socket_Write h d e = (case m_socket e of None \<Rightarrow> None
     | Some s \<Rightarrow> Some (e\<lparr>m_socket := Some (Write h d s)\<rparr>))"

text \<open>
  The two overloads of \<^verbatim>\<open>WriteCommand\<close>: without and with a response callback. Both call
  \<^verbatim>\<open>InitCommandHeader\<close> with two arguments; the third, \<^verbatim>\<open>commandId\<close>, has its default
  value, which is 0, the request for a fresh id.
\<close>

definition WriteCommand :: "RemoteCommandType \<Rightarrow> RemoteCommandData \<Rightarrow> 'cb RemoteEngine
    \<Rightarrow> 'cb RemoteEngine option" where
  "WriteCommand t d e =
     (let (h, e1) = InitCommandHeader t (GetSize d) 0 e in socket_Write h d e1)"

definition WriteCommand_response :: "RemoteCommandType \<Rightarrow> RemoteCommandData
    \<Rightarrow> 'cb RemoteCommandCallback \<Rightarrow> 'cb RemoteEngine \<Rightarrow> 'cb RemoteEngine option" where
  "WriteCommand_response t d r e =
     (let (h, e1) = InitCommandHeader t (GetSize d) 0 e;
          wcommand = \<lparr>header = h, response = r\<rparr>
      in case socket_Write h d e1 of None \<Rightarrow> None
         | Some e2 \<Rightarrow> Some (e2\<lparr>m_waitResponseCommandList :=
                               m_waitResponseCommandList e2 @ [wcommand]\<rparr>))"

text \<open>
  \<^verbatim>\<open>WriteResponse\<close> passes the received command's id, an unsigned 32-bit value, as the
  \<^verbatim>\<open>int\<close> argument of \<^verbatim>\<open>InitCommandHeader\<close>: \<open>sint\<close> is that conversion.
\<close>

definition WriteResponse :: "'cb RemoteCommand \<Rightarrow> RemoteCommandType \<Rightarrow> RemoteCommandData
    \<Rightarrow> 'cb RemoteEngine \<Rightarrow> 'cb RemoteEngine option" where
  "WriteResponse readCommand t d e =
     (let (h, e1) = InitCommandHeader t (GetSize d) (sint (GetCommandId readCommand)) e
      in socket_Write h d e1)"

definition DoStartConnection :: "int \<Rightarrow> 'cb RemoteEngine \<Rightarrow> 'cb RemoteEngine option" where
  "DoStartConnection c e =
     (let (h, e1) = InitCommandHeader START_CONNECTION 0 0 e
      in socket_Write (h\<lparr>ctxId := c\<rparr>) [] e1)"

definition DoEndConnection :: "'cb RemoteEngine \<Rightarrow> 'cb RemoteEngine option" where
  "DoEndConnection e = WriteCommand END_CONNECTION [] e"

subsection \<open>The read handlers of SocketBase\<close>

text \<open>
  The handlers of a completed read run on the engine's socket (\<^verbatim>\<open>this\<close>) and call back into
  the engine (\<^verbatim>\<open>m_engine\<close>). \<open>on_socket f\<close> is a method \<open>f\<close> of the socket run on the engine's
  socket. The handler of a header read receives the command holding the header read, the
  handler of a payload read the command with its payload.
\<close>

definition on_socket :: "('cb SocketBase \<Rightarrow> 'cb SocketBase) \<Rightarrow> 'cb RemoteEngine \<Rightarrow> 'cb RemoteEngine" where
  "on_socket f e = e\<lparr>m_socket := map_option f (m_socket e)\<rparr>"

definition ResizeData :: "'cb RemoteCommand \<Rightarrow> 'cb RemoteCommand" where
  "ResizeData c =
     (let n = unat (GetDataSize c)
      in c\<lparr>m_data := take n (m_data c) @ replicate (n - length (m_data c)) 0\<rparr>)"

definition handleReadData :: "'cb RemoteCommand \<Rightarrow> bool \<Rightarrow> 'cb RemoteEngine \<Rightarrow> 'cb RemoteEngine" where
  "handleReadData command error e =
     (if \<not> error then on_socket asyncReadCommand (HandleReadCommand command e)
      else on_socket doClose e)"

definition handleReadCommand :: "'cb RemoteCommand \<Rightarrow> bool \<Rightarrow> 'cb RemoteEngine \<Rightarrow> 'cb RemoteEngine" where
  "handleReadCommand command error e =
     (if \<not> error then
        (let e1 = (if GetCtxId command < 0 then on_socket doClose e else e)
         in if GetDataSize command > 0 then
              on_socket (async_read (ReadData (ResizeData command))) e1
            else handleReadData command error e1)
      else on_socket doClose e)"

subsection \<open>The I/O service\<close>

text \<open>
  A handler posted to the I/O service is a bound method of the socket.
\<close>

definition run_handler :: "'cb handler \<Rightarrow> ('cb, 'z) SocketBase_scheme \<Rightarrow> ('cb, 'z) SocketBase_scheme" where
  "run_handler h s = (case h of DoWrite c \<Rightarrow> doWrite c s | DoClose \<Rightarrow> doClose s
     | DoConnected \<Rightarrow> connected s)"

text \<open>The oldest posted handler runs, if there is one.\<close>

definition run_posted :: "('cb, 'z) SocketBase_scheme \<Rightarrow> ('cb, 'z) SocketBase_scheme" where
  "run_posted s = (case io_posted s of [] \<Rightarrow> s | h # hs \<Rightarrow> run_handler h (s\<lparr>io_posted := hs\<rparr>))"

text \<open>
  The oldest outstanding \<^verbatim>\<open>async_write\<close> completes: \<^verbatim>\<open>handleWrite\<close> runs with the
  \<^verbatim>\<open>deleteCommand\<close> flag bound to that operation and the error reported.
\<close>

definition write_completes :: "bool \<Rightarrow> ('cb, 'z) SocketBase_scheme \<Rightarrow> ('cb, 'z) SocketBase_scheme" where
  "write_completes error s = (case async_writes s of [] \<Rightarrow> s
     | (deleteCommand, b) # ws \<Rightarrow> handleWrite deleteCommand error (s\<lparr>async_writes := ws\<rparr>))"

text \<open>
  What one \<^verbatim>\<open>poll_one\<close> of the service thread can do to a running engine: run the oldest
  posted handler, or run the completion handler of the oldest outstanding write or read.
  A completed header read delivers a fresh command holding the header read; a completed
  payload read delivers the command with its payload.
\<close>

datatype io_event = Posted | WriteDone bool | HeaderRead RemoteCommandHeader bool
  | DataRead RemoteCommandData bool

definition poll_one :: "io_event \<Rightarrow> 'cb RemoteEngine \<Rightarrow> 'cb RemoteEngine" where
  "poll_one ev e = (case m_socket e of None \<Rightarrow> e | Some s \<Rightarrow>
     (case ev of
        Posted \<Rightarrow> on_socket run_posted e
      | WriteDone error \<Rightarrow> on_socket (write_completes error) e
      | HeaderRead h error \<Rightarrow> (case async_reads s of
            ReadHeader # rs \<Rightarrow>
              handleReadCommand (RemoteCommand h []) error (e\<lparr>m_socket := Some (s\<lparr>async_reads := rs\<rparr>)\<rparr>)
          | _ \<Rightarrow> e)
      | DataRead d error \<Rightarrow> (case async_reads s of
            ReadData c # rs \<Rightarrow>
              handleReadData (c\<lparr>m_data := d\<rparr>) error (e\<lparr>m_socket := Some (s\<lparr>async_reads := rs\<rparr>)\<rparr>)
          | _ \<Rightarrow> e)))"

subsection \<open>Exceptions and the service thread\<close>

text \<open>
  \<^verbatim>\<open>m_socket.close()\<close> in \<^verbatim>\<open>doClose\<close> is the overload of asio without an \<^verbatim>\<open>error_code\<close>
  argument: when closing fails it throws \<^verbatim>\<open>boost::system::system_error\<close>, a
  \<^verbatim>\<open>std::exception\<close>. No other call of the handlers reports its failure by an exception,
  and nothing in \<^verbatim>\<open>SocketBase\<close> catches one. The definitions of this section are the
  handlers again, with that exception: the outcome of a call is the state it leaves and
  whether it returned or threw, and \<open>close_fails\<close> tells whether a \<^verbatim>\<open>close()\<close> made during
  the call fails. The definitions above are the case in which \<^verbatim>\<open>close()\<close> returns.
\<close>

datatype 'a outcome = Returned 'a | Thrown 'a

text \<open>
  \<^verbatim>\<open>doClose\<close>: when \<^verbatim>\<open>close()\<close> throws, the assignment \<^verbatim>\<open>m_isConnected = false\<close> after it
  is not reached. The socket is left as it was.
\<close>

definition doClose_exn :: "bool \<Rightarrow> ('cb, 'z) SocketBase_scheme \<Rightarrow> ('cb, 'z) SocketBase_scheme outcome" where
  "doClose_exn close_fails s =
     (if close_fails then Thrown s
      else Returned (s\<lparr>m_socket_is_open := False, m_isConnected := False\<rparr>))"

definition handleWrite_exn :: "bool \<Rightarrow> bool \<Rightarrow> bool \<Rightarrow> ('cb, 'z) SocketBase_scheme
    \<Rightarrow> ('cb, 'z) SocketBase_scheme outcome" where
  "handleWrite_exn close_fails deleteCommand error s =
     (if \<not> error then
        (if deleteCommand then
           (let s1 = s\<lparr>m_writeCommandQueue := tl (m_writeCommandQueue s)\<rparr>
            in if m_writeCommandQueue s1 \<noteq> [] then
                 Returned (asyncWrite (hd (m_writeCommandQueue s1)) s1)
               else Returned s1)
         else Returned s)
      else doClose_exn close_fails s)"

text \<open>A method of the socket that may throw, run on the engine's socket.\<close>

definition on_socket_exn :: "('cb SocketBase \<Rightarrow> 'cb SocketBase outcome) \<Rightarrow> 'cb RemoteEngine
    \<Rightarrow> 'cb RemoteEngine outcome" where
  "on_socket_exn f e = (case m_socket e of None \<Rightarrow> Returned e
     | Some s \<Rightarrow> (case f s of Returned s' \<Rightarrow> Returned (e\<lparr>m_socket := Some s'\<rparr>)
         | Thrown s' \<Rightarrow> Thrown (e\<lparr>m_socket := Some s'\<rparr>)))"

definition handleReadData_exn :: "bool \<Rightarrow> 'cb RemoteCommand \<Rightarrow> bool \<Rightarrow> 'cb RemoteEngine
    \<Rightarrow> 'cb RemoteEngine outcome" where
  "handleReadData_exn close_fails command error e =
     (if \<not> error then Returned (on_socket asyncReadCommand (HandleReadCommand command e))
      else on_socket_exn (doClose_exn close_fails) e)"

text \<open>
  In \<^verbatim>\<open>handleReadCommand\<close> an exception of the \<^verbatim>\<open>doClose()\<close> made for a negative peerId
  leaves the handler at once.
\<close>

definition handleReadCommand_exn :: "bool \<Rightarrow> 'cb RemoteCommand \<Rightarrow> bool \<Rightarrow> 'cb RemoteEngine
    \<Rightarrow> 'cb RemoteEngine outcome" where
  "handleReadCommand_exn close_fails command error e =
     (if \<not> error then
        (case (if GetCtxId command < 0 then on_socket_exn (doClose_exn close_fails) e
               else Returned e) of
           Thrown e1 \<Rightarrow> Thrown e1
         | Returned e1 \<Rightarrow>
             if GetDataSize command > 0 then
               Returned (on_socket (async_read (ReadData (ResizeData command))) e1)
             else handleReadData_exn close_fails command error e1)
      else on_socket_exn (doClose_exn close_fails) e)"

definition run_handler_exn :: "bool \<Rightarrow> 'cb handler \<Rightarrow> ('cb, 'z) SocketBase_scheme
    \<Rightarrow> ('cb, 'z) SocketBase_scheme outcome" where
  "run_handler_exn close_fails h s = (case h of DoWrite c \<Rightarrow> Returned (doWrite c s)
     | DoClose \<Rightarrow> doClose_exn close_fails s | DoConnected \<Rightarrow> Returned (connected s))"

definition run_posted_exn :: "bool \<Rightarrow> ('cb, 'z) SocketBase_scheme \<Rightarrow> ('cb, 'z) SocketBase_scheme outcome" where
  "run_posted_exn close_fails s = (case io_posted s of [] \<Rightarrow> Returned s
     | h # hs \<Rightarrow> run_handler_exn close_fails h (s\<lparr>io_posted := hs\<rparr>))"

definition write_completes_exn :: "bool \<Rightarrow> bool \<Rightarrow> ('cb, 'z) SocketBase_scheme
    \<Rightarrow> ('cb, 'z) SocketBase_scheme outcome" where
  "write_completes_exn close_fails error s = (case async_writes s of [] \<Rightarrow> Returned s
     | (deleteCommand, b) # ws \<Rightarrow>
         handleWrite_exn close_fails deleteCommand error (s\<lparr>async_writes := ws\<rparr>))"

text \<open>
  One \<^verbatim>\<open>m_ioService.poll_one()\<close> of the service thread. What it finds is \<open>None\<close>, no handler
  ready to run, or an event as for \<open>poll_one\<close> above with \<open>close_fails\<close>. An exception thrown
  by the handler leaves \<^verbatim>\<open>poll_one()\<close>. \<open>polled\<close> is the value \<^verbatim>\<open>poll_one()\<close> returns, the
  number of handlers run.
\<close>

type_synonym poll = "(io_event \<times> bool) option"

definition poll_one_exn :: "poll \<Rightarrow> 'cb RemoteEngine \<Rightarrow> 'cb RemoteEngine outcome" where
  "poll_one_exn p e = (case p of None \<Rightarrow> Returned e | Some (ev, close_fails) \<Rightarrow>
     (case m_socket e of None \<Rightarrow> Returned e | Some s \<Rightarrow>
       (case ev of
          Posted \<Rightarrow> on_socket_exn (run_posted_exn close_fails) e
        | WriteDone error \<Rightarrow> on_socket_exn (write_completes_exn close_fails error) e
        | HeaderRead h error \<Rightarrow> (case async_reads s of
              ReadHeader # rs \<Rightarrow>
                handleReadCommand_exn close_fails (RemoteCommand h []) error
                  (e\<lparr>m_socket := Some (s\<lparr>async_reads := rs\<rparr>)\<rparr>)
            | _ \<Rightarrow> Returned e)
        | DataRead d error \<Rightarrow> (case async_reads s of
              ReadData c # rs \<Rightarrow>
                handleReadData_exn close_fails (c\<lparr>m_data := d\<rparr>) error
                  (e\<lparr>m_socket := Some (s\<lparr>async_reads := rs\<rparr>)\<rparr>)
            | _ \<Rightarrow> Returned e))))"

definition polled :: "poll \<Rightarrow> 'cb RemoteEngine \<Rightarrow> nat" where
  "polled p e = (case p of None \<Rightarrow> 0 | Some (ev, close_fails) \<Rightarrow>
     (case m_socket e of None \<Rightarrow> 0 | Some s \<Rightarrow>
       (case ev of
          Posted \<Rightarrow> (if io_posted s \<noteq> [] then 1 else 0)
        | WriteDone error \<Rightarrow> (if async_writes s \<noteq> [] then 1 else 0)
        | HeaderRead h error \<Rightarrow> (case async_reads s of ReadHeader # rs \<Rightarrow> 1 | _ \<Rightarrow> 0)
        | DataRead d error \<Rightarrow> (case async_reads s of ReadData c # rs \<Rightarrow> 1 | _ \<Rightarrow> 0))))"

text \<open>The polls of one round, one after the other, up to the first exception.\<close>

fun polls_exn :: "poll list \<Rightarrow> 'cb RemoteEngine \<Rightarrow> 'cb RemoteEngine outcome" where
  "polls_exn [] e = Returned e"
| "polls_exn (p # ps) e = (case poll_one_exn p e of Thrown e1 \<Rightarrow> Thrown e1
     | Returned e1 \<Rightarrow> polls_exn ps e1)"

definition IsThreadActive :: "'cb RemoteEngine \<Rightarrow> bool" where
  "IsThreadActive e = m_isThreadActive e"

definition SetThreadActive :: "bool \<Rightarrow> 'cb RemoteEngine \<Rightarrow> 'cb RemoteEngine" where
  "SetThreadActive is e = e\<lparr>m_isThreadActive := is\<rparr>"

text \<open>
  The loop of \<^verbatim>\<open>ServiceThread\<close>, the body of its \<^verbatim>\<open>try\<close>. The environment gives each round
  of the loop what its ten polls find (the first ten entries of the list count, entries
  missing are polls that find nothing), whether another thread has called
  \<^verbatim>\<open>SetThreadActive(false)\<close> by the time of the test (\<^verbatim>\<open>StopThread\<close> does), and what the
  eleventh poll finds, which is made only when the thread is no longer active. The result
  is \<open>None\<close> when the loop is still running after the environment's rounds, and else how the
  loop was left: by \<^verbatim>\<open>break\<close> or by an exception.
\<close>

type_synonym round = "poll list \<times> bool \<times> poll"

fun ServiceThread_loop :: "round list \<Rightarrow> 'cb RemoteEngine \<Rightarrow> 'cb RemoteEngine outcome option" where
  "ServiceThread_loop [] e = None"
| "ServiceThread_loop ((ps, stop, extra) # rounds) e =
     (case polls_exn (take 10 ps) e of
        Thrown e1 \<Rightarrow> Some (Thrown e1)
      | Returned e1 \<Rightarrow>
          (let e2 = (if stop then SetThreadActive False e1 else e1)
           in if \<not> IsThreadActive e2 then
                (case poll_one_exn extra e2 of
                   Thrown e3 \<Rightarrow> Some (Thrown e3)
                 | Returned e3 \<Rightarrow>
                     if polled extra e2 = 0 then Some (Returned e3)
                     else ServiceThread_loop rounds e3)
              else ServiceThread_loop rounds e2))"

text \<open>
  \<^verbatim>\<open>ServiceThread\<close>: nothing is done when the thread is active already; otherwise the loop
  runs, an exception leaving it is caught (\<^verbatim>\<open>catch (std::exception &)\<close>, which prints its
  message), and in both cases the thread is marked inactive and ends.
\<close>

definition ServiceThread :: "round list \<Rightarrow> 'cb RemoteEngine \<Rightarrow> 'cb RemoteEngine outcome option" where
  "ServiceThread rounds e =
     (if IsThreadActive e then Some (Returned e)
      else (case ServiceThread_loop rounds (SetThreadActive True e) of
              None \<Rightarrow> None
            | Some (Returned e1) \<Rightarrow> Some (Returned (SetThreadActive False e1))
            | Some (Thrown e1) \<Rightarrow> Some (Returned (SetThreadActive False e1))))"

subsection \<open>Waiting for the connection\<close>

text \<open>
  \<^verbatim>\<open>boost::xtime\<close> and \<^verbatim>\<open>boost::xtime_cmp\<close> (seconds first, then nanoseconds).
\<close>

record xtime =
  sec :: int
  nsec :: int

definition xtime_cmp :: "xtime \<Rightarrow> xtime \<Rightarrow> int" where
  "xtime_cmp xt1 xt2 = (if sec xt1 = sec xt2 then nsec xt1 - nsec xt2
     else if sec xt1 > sec xt2 then 1 else - 1)"

subsection \<open>ContextSocket: the listener\<close>

text \<open>\<open>async_accepts\<close> counts the \<^verbatim>\<open>async_accept\<close> operations outstanding on the acceptor.\<close>

record 'cb ContextSocket = "'cb SocketBase" +
  async_accepts :: nat

definition ContextSocket :: "'cb ContextSocket" where
  "ContextSocket = \<lparr>m_isConnected = False, m_writeCommandQueue = [], m_socket_is_open = False,
     io_posted = [], async_writes = [], wire = [], async_reads = [], async_accepts = 0\<rparr>"

definition async_accept :: "'cb ContextSocket \<Rightarrow> 'cb ContextSocket" where
  "async_accept s = s\<lparr>async_accepts := async_accepts s + 1\<rparr>"

definition handleAccept :: "bool \<Rightarrow> 'cb ContextSocket \<Rightarrow> 'cb ContextSocket" where
  "handleAccept error s = (if \<not> error then Connected s else async_accept s)"

text \<open>
  One \<^verbatim>\<open>poll_one\<close> inside \<^verbatim>\<open>Start\<close>: the oldest posted handler runs if there is one;
  otherwise, if the environment reports the outstanding accept as completed (\<open>Some error\<close>),
  \<^verbatim>\<open>handleAccept\<close> runs (a successful accept has opened the socket); otherwise nothing is
  ready.
\<close>

definition accept_completes :: "bool \<Rightarrow> 'cb ContextSocket \<Rightarrow> 'cb ContextSocket" where
  "accept_completes error s =
     (if async_accepts s = 0 then s
      else let s1 = s\<lparr>async_accepts := async_accepts s - 1\<rparr>
           in handleAccept error (if error then s1 else s1\<lparr>m_socket_is_open := True\<rparr>))"

definition ContextSocket_poll_one :: "bool option \<Rightarrow> 'cb ContextSocket \<Rightarrow> 'cb ContextSocket" where
  "ContextSocket_poll_one ev s =
     (if io_posted s \<noteq> [] then run_posted s
      else case ev of None \<Rightarrow> s | Some error \<Rightarrow> accept_completes error s)"

text \<open>
  The waiting loop of \<^verbatim>\<open>Start\<close>. Each round of the loop takes from the environment the
  clock reading of \<^verbatim>\<open>xtime_get\<close> and what \<^verbatim>\<open>poll_one\<close> finds ready. The loop returns 0 once
  the socket is connected and -1 once a clock reading has reached \<open>endt\<close>; \<open>None\<close> says that
  the loop is still running when the environment's rounds are used up.
\<close>

fun ContextSocket_wait :: "xtime \<Rightarrow> (xtime \<times> bool option) list \<Rightarrow> 'cb ContextSocket
    \<Rightarrow> (int \<times> 'cb ContextSocket) option" where
  "ContextSocket_wait endt [] s = (if \<not> IsConnected s then None else Some (0, s))"
| "ContextSocket_wait endt ((current, ev) # env) s =
     (if \<not> IsConnected s then
        (if xtime_cmp current endt \<ge> 0 then Some (- 1, s)
         else ContextSocket_wait endt env (ContextSocket_poll_one ev s))
      else Some (0, s))"

text \<open>
  \<^verbatim>\<open>ContextSocket::Start(waitSeconds)\<close>; \<open>now\<close> is the clock reading that \<^verbatim>\<open>end\<close> is
  computed from.
\<close>

definition ContextSocket_Start :: "int \<Rightarrow> xtime \<Rightarrow> (xtime \<times> bool option) list \<Rightarrow> 'cb ContextSocket
    \<Rightarrow> (int \<times> 'cb ContextSocket) option" where
  "ContextSocket_Start waitSeconds now env s =
     (let s1 = async_accept s
      in if waitSeconds \<ge> 0 then
           ContextSocket_wait (now\<lparr>sec := sec now + waitSeconds\<rparr>) env s1
         else Some (0, s1))"

subsection \<open>FrameSocket: the dialer\<close>

text \<open>
  \<open>m_endpointIterator\<close> is the resolver's iterator: the endpoints from its position on
  (\<open>[]\<close> is the end iterator). \<open>async_connects\<close> are the outstanding \<^verbatim>\<open>async_connect\<close>
  operations, each with the iterator bound to its handler.
\<close>

type_synonym endpoint = nat

record 'cb FrameSocket = "'cb SocketBase" +
  m_endpointIterator :: "endpoint list"
  async_connects :: "endpoint list list"

definition FrameSocket :: "endpoint list \<Rightarrow> 'cb FrameSocket" where
  "FrameSocket resolved = \<lparr>m_isConnected = False, m_writeCommandQueue = [],
     m_socket_is_open = False, io_posted = [], async_writes = [], wire = [], async_reads = [],
     m_endpointIterator = resolved, async_connects = []\<rparr>"

definition async_connect :: "endpoint list \<Rightarrow> 'cb FrameSocket \<Rightarrow> 'cb FrameSocket" where
  "async_connect endpointIterator s = s\<lparr>async_connects := async_connects s @ [endpointIterator]\<rparr>"

text \<open>
  \<^verbatim>\<open>handleConnect\<close>: on an error the socket is closed and the connect is issued again with
  the iterator the handler was bound to.
\<close>

definition handleConnect :: "bool \<Rightarrow> endpoint list \<Rightarrow> 'cb FrameSocket \<Rightarrow> 'cb FrameSocket" where
  "handleConnect error endpointIterator s =
     (if \<not> error then Connected s
      else async_connect endpointIterator (s\<lparr>m_socket_is_open := False\<rparr>))"

definition connect_completes :: "bool \<Rightarrow> 'cb FrameSocket \<Rightarrow> 'cb FrameSocket" where
  "connect_completes error s = (case async_connects s of [] \<Rightarrow> s
     | it # its \<Rightarrow>
         (let s1 = s\<lparr>async_connects := its\<rparr>
          in handleConnect error it (if error then s1 else s1\<lparr>m_socket_is_open := True\<rparr>)))"

definition FrameSocket_poll_one :: "bool option \<Rightarrow> 'cb FrameSocket \<Rightarrow> 'cb FrameSocket" where
  "FrameSocket_poll_one ev s =
     (if io_posted s \<noteq> [] then run_posted s
      else case ev of None \<Rightarrow> s | Some error \<Rightarrow> connect_completes error s)"

fun FrameSocket_wait :: "xtime \<Rightarrow> (xtime \<times> bool option) list \<Rightarrow> 'cb FrameSocket
    \<Rightarrow> (int \<times> 'cb FrameSocket) option" where
  "FrameSocket_wait endt [] s = (if \<not> IsConnected s then None else Some (0, s))"
| "FrameSocket_wait endt ((current, ev) # env) s =
     (if \<not> IsConnected s then
        (if xtime_cmp current endt \<ge> 0 then Some (- 1, s)
         else FrameSocket_wait endt env (FrameSocket_poll_one ev s))
      else Some (0, s))"

text \<open>
  \<^verbatim>\<open>FrameSocket::Start\<close> dereferences the iterator first; on the end iterator that is
  undefined in C++, here \<open>None\<close>.
\<close>

definition FrameSocket_Start :: "int \<Rightarrow> xtime \<Rightarrow> (xtime \<times> bool option) list \<Rightarrow> 'cb FrameSocket
    \<Rightarrow> (int \<times> 'cb FrameSocket) option" where
  "FrameSocket_Start waitSeconds now env s = (case m_endpointIterator s of [] \<Rightarrow> None
     | endpoint # _ \<Rightarrow>
         (let s1 = async_connect (m_endpointIterator s) s
          in if waitSeconds \<ge> 0 then
               FrameSocket_wait (now\<lparr>sec := sec now + waitSeconds\<rparr>) env s1
             else Some (0, s1)))"

subsection \<open>Starting the engine\<close>

definition StartThread :: "'cb RemoteEngine \<Rightarrow> 'cb RemoteEngine" where
  "StartThread e = (if \<not> m_isThreadActive e then e\<lparr>m_thread := True\<rparr> else e)"

text \<open>
  While the caller waits on the condition variable \<^verbatim>\<open>m_ctxCond\<close> the mutex is released and
  the service thread runs; \<open>events\<close> is what its \<^verbatim>\<open>poll_one\<close> calls find during the wait.
\<close>

definition timed_wait :: "io_event list \<Rightarrow> 'cb RemoteEngine \<Rightarrow> 'cb RemoteEngine" where
  "timed_wait events e = fold poll_one events e"

text \<open>
  \<^verbatim>\<open>StartContext\<close> (server role) and \<^verbatim>\<open>StartFrame\<close> (client role). The result is the
  return value and the engine; \<open>None\<close> when the socket's \<^verbatim>\<open>Start\<close> has not returned within
  the environment's rounds, or on undefined behaviour. \<open>now\<close> and \<open>env\<close> are the environment
  of the socket's \<^verbatim>\<open>Start\<close>, \<open>events\<close> that of the wait for the identity. The engine keeps
  the socket as a \<^verbatim>\<open>SocketBase\<close> (the cast), without the acceptor's or the resolver's part.
\<close>

definition StartContext :: "int \<Rightarrow> int \<Rightarrow> xtime \<Rightarrow> (xtime \<times> bool option) list \<Rightarrow> io_event list
    \<Rightarrow> 'cb RemoteEngine \<Rightarrow> (int \<times> 'cb RemoteEngine) option" where
  "StartContext c waitSeconds now env events e =
     (case ContextSocket_Start waitSeconds now env ContextSocket of None \<Rightarrow> None
      | Some (r, socket) \<Rightarrow>
          if r \<noteq> 0 then Some (- 1, e)
          else
            (let e1 = StartThread e;
                 e2 = e1\<lparr>m_commandIdCounter := 1\<rparr>;
                 e3 = e2\<lparr>m_socket := Some (SocketBase.truncate socket)\<rparr>
             in case DoStartConnection c e3 of None \<Rightarrow> None
                | Some e4 \<Rightarrow>
                    if m_ctxId e4 < 0 then
                      (let e5 = timed_wait events e4
                       in if m_ctxId e5 < 0 then Some (- 1, e5) else Some (0, e5))
                    else Some (0, e4)))"

definition StartFrame :: "endpoint list \<Rightarrow> int \<Rightarrow> xtime \<Rightarrow> (xtime \<times> bool option) list
    \<Rightarrow> io_event list \<Rightarrow> 'cb RemoteEngine \<Rightarrow> (int \<times> 'cb RemoteEngine) option" where
  "StartFrame resolved waitSeconds now env events e =
     (case FrameSocket_Start waitSeconds now env (FrameSocket resolved) of None \<Rightarrow> None
      | Some (r, socket) \<Rightarrow>
          if r \<noteq> 0 then Some (- 1, e)
          else
            (let e1 = StartThread e;
                 e2 = e1\<lparr>m_commandIdCounter := 2\<rparr>;
                 e3 = e2\<lparr>m_socket := Some (SocketBase.truncate socket)\<rparr>
             in if m_ctxId e3 < 0 then
                  (let e4 = timed_wait events e3
                   in if m_ctxId e4 < 0 then Some (- 1, e4) else Some (0, e4))
                else Some (0, e3)))"

subsection \<open>The life of a connection's write side\<close>















subsection \<open>Fresh command ids\<close>

text \<open>
  The ids handed out by a run of requests for a fresh id (\<^verbatim>\<open>InitCommandHeader\<close> called with
  \<^verbatim>\<open>commandId == 0\<close>), each request with its type and payload size.
\<close>

fun fresh_ids :: "(RemoteCommandType \<times> nat) list \<Rightarrow> 'cb RemoteEngine \<Rightarrow> 32 word list" where
  "fresh_ids [] e = []"
| "fresh_ids ((t, n) # rs) e =
     (let (h, e1) = InitCommandHeader t n 0 e in commandId h # fresh_ids rs e1)"

subsection \<open>Correlation, in the spec's words\<close>

text \<open>
  A received command matches a waiting request when their \<open>(peerId, commandId)\<close> pairs are
  equal.
\<close>

definition matches :: "'cb RemoteCommand \<Rightarrow> 'cb WaitResponseCommand \<Rightarrow> bool" where
  "matches c w \<longleftrightarrow> GetCtxId c = ctxId (header w) \<and> GetCommandId c = commandId (header w)"

subsection \<open>Example states\<close>

text \<open>
  A connected socket with its header read outstanding, and an engine in the server role
  after the handshake: identity 7, ids 1, 3 and 5 used, two requests waiting for a reply.
\<close>

definition example_socket :: "nat SocketBase" where
  "example_socket = \<lparr>m_isConnected = True, m_writeCommandQueue = [], m_socket_is_open = True,
     io_posted = [], async_writes = [], wire = [], async_reads = [ReadHeader]\<rparr>"

definition example_engine :: "nat RemoteEngine" where
  "example_engine = \<lparr>m_isThreadActive = True, m_thread = True, m_commandIdCounter = 7,
     m_ctxId = 7,
     m_waitResponseCommandList =
       [\<lparr>header = \<lparr>type = EVAL, ctxId = 7, commandId = 3, dataSize = 2\<rparr>, response = Some 30\<rparr>,
        \<lparr>header = \<lparr>type = REQUEST_STACKLIST, ctxId = 7, commandId = 5, dataSize = 0\<rparr>,
         response = Some 50\<rparr>],
     m_readCommandQueue = [], m_socket = Some example_socket\<rparr>"

text \<open>
  The same engine in the middle of its work: the header of a queued command is being
  written, and the payload of a received command is being read.
\<close>

definition example_busy_socket :: "nat SocketBase" where
  "example_busy_socket = \<lparr>m_isConnected = True,
     m_writeCommandQueue = [RemoteCommand \<lparr>type = BREAK, ctxId = 7, commandId = 7, dataSize = 0\<rparr> []],
     m_socket_is_open = True, io_posted = [],
     async_writes = [(True, HeaderBuf \<lparr>type = BREAK, ctxId = 7, commandId = 7, dataSize = 0\<rparr>)],
     wire = [HeaderBuf \<lparr>type = BREAK, ctxId = 7, commandId = 7, dataSize = 0\<rparr>],
     async_reads = [ReadData (RemoteCommand
       \<lparr>type = VALUE_STRING, ctxId = 7, commandId = 3, dataSize = 2\<rparr> [0, 0])]\<rparr>"

definition example_busy_engine :: "nat RemoteEngine" where
  "example_busy_engine = example_engine\<lparr>m_commandIdCounter := 9,
     m_socket := Some example_busy_socket\<rparr>"

text \<open>A command without payload, and the header of a command with one byte of payload.\<close>

definition example_command :: "RemoteCommandType \<Rightarrow> int \<Rightarrow> 32 word \<Rightarrow> nat RemoteCommand" where
  "example_command t c i = RemoteCommand \<lparr>type = t, ctxId = c, commandId = i, dataSize = 0\<rparr> []"

definition example_header :: RemoteCommandHeader where
  "example_header = \<lparr>type = CHANGED_STATE, ctxId = 7, commandId = 7, dataSize = 1\<rparr>"


text \<open>
  Environments of \<^verbatim>\<open>Start\<close>, called at second 100: one in which the peer connects at once,
  and one in which the first accept fails and the next succeeds only at second 102.
\<close>

definition example_now :: xtime where
  "example_now = \<lparr>sec = 100, nsec = 0\<rparr>"

definition example_env :: "(xtime \<times> bool option) list" where
  "example_env = [(\<lparr>sec = 100, nsec = 0\<rparr>, Some False), (\<lparr>sec = 100, nsec = 5\<rparr>, None)]"

definition example_late_env :: "(xtime \<times> bool option) list" where
  "example_late_env = [(\<lparr>sec = 100, nsec = 0\<rparr>, Some True), (\<lparr>sec = 101, nsec = 0\<rparr>, None),
     (\<lparr>sec = 102, nsec = 0\<rparr>, Some False)]"

text \<open>
  What the service thread finds while the starting engine waits for its identity: in the
  server role the peer's reply to START_CONNECTION, in the client role the server's
  START_CONNECTION. \<open>example_server\<close> and \<open>example_client\<close> are the engines after the start.
\<close>

definition example_server_events :: "io_event list" where
  "example_server_events =
     [HeaderRead \<lparr>type = SUCCESSED, ctxId = 7, commandId = 1, dataSize = 0\<rparr> False]"

definition example_client_events :: "io_event list" where
  "example_client_events =
     [HeaderRead \<lparr>type = START_CONNECTION, ctxId = 7, commandId = 1, dataSize = 0\<rparr> False]"

definition example_server :: "nat RemoteEngine" where
  "example_server = \<lparr>m_isThreadActive = False, m_thread = True, m_commandIdCounter = 3,
     m_ctxId = 7, m_waitResponseCommandList = [],
     m_readCommandQueue = [example_command SUCCESSED 7 1],
     m_socket = Some (example_socket\<lparr>io_posted :=
       [DoWrite (example_command START_CONNECTION 7 1)]\<rparr>)\<rparr>"

definition example_client :: "nat RemoteEngine" where
  "example_client = \<lparr>m_isThreadActive = False, m_thread = True, m_commandIdCounter = 2,
     m_ctxId = 7, m_waitResponseCommandList = [],
     m_readCommandQueue = [example_command START_CONNECTION 7 1],
     m_socket = Some example_socket\<rparr>"

text \<open>
  The engine inside \<^verbatim>\<open>StartContext\<close> once the counter is seeded and the socket set, before
  START_CONNECTION is sent.
\<close>

definition example_seeded_server :: "nat RemoteEngine" where
  "example_seeded_server = \<lparr>m_isThreadActive = False, m_thread = True,
     m_commandIdCounter = 1, m_ctxId = - 1, m_waitResponseCommandList = [],
     m_readCommandQueue = [], m_socket = Some example_socket\<rparr>"

text \<open>
  A client engine whose connection is established and whose identity is not negotiated yet
  (the state in which \<^verbatim>\<open>StartFrame\<close> waits for the identity).
\<close>

definition example_unnamed_client :: "nat RemoteEngine" where
  "example_unnamed_client = \<lparr>m_isThreadActive = False, m_thread = True,
     m_commandIdCounter = 2, m_ctxId = - 1, m_waitResponseCommandList = [],
     m_readCommandQueue = [], m_socket = Some example_socket\<rparr>"

text \<open>
  The busy engine when its service thread is about to start, and two environments of the
  thread: in both the write of the queued header fails; in the first the thread is then
  stopped, in the second \<^verbatim>\<open>close()\<close> fails as well and nobody stops the thread.
\<close>

definition example_starting_engine :: "nat RemoteEngine" where
  "example_starting_engine = example_busy_engine\<lparr>m_isThreadActive := False\<rparr>"

definition example_rounds :: "round list" where
  "example_rounds = [([Some (WriteDone True, False)], True, None)]"

definition example_close_fails_rounds :: "round list" where
  "example_close_fails_rounds = [([Some (WriteDone True, True)], False, None)]"

section \<open>Properties\<close>

subsection \<open>Basic facts about the engine\<close>

lemma SetCtxId_eq: "SetCtxId c e = e\<lparr>m_ctxId := c\<rparr>"
  by (simp add: SetCtxId_def)

lemma findResponse_header: "m_header (fst (findResponse c ws)) = m_header c"
  by (induction ws) (auto simp: SetResponse_def split: prod.splits)

lemma findResponse_find:
  "findResponse c ws = (case List.find (matches c) ws of
      None \<Rightarrow> (c, ws)
    | Some w \<Rightarrow> (SetResponse (response w) c,
        takeWhile (\<lambda>w. \<not> matches c w) ws @ drop 1 (dropWhile (\<lambda>w. \<not> matches c w) ws)))"
  by (induction ws) (auto simp: matches_def split: option.splits)

lemma find_None_takeWhile:
  "List.find P ws = None \<Longrightarrow>
     takeWhile (\<lambda>w. \<not> P w) ws @ drop 1 (dropWhile (\<lambda>w. \<not> P w) ws) = ws"
  by (induction ws) (auto split: if_splits)

lemma findResponse_snd:
  "snd (findResponse c ws) =
     takeWhile (\<lambda>w. \<not> matches c w) ws @ drop 1 (dropWhile (\<lambda>w. \<not> matches c w) ws)"
proof (cases "List.find (matches c) ws")
  case None
  from find_None_takeWhile [OF this] show ?thesis by (simp add: findResponse_find None)
next
  case (Some w)
  then show ?thesis by (simp add: findResponse_find)
qed

lemma findResponse_fst:
  "fst (findResponse c ws) =
     (case List.find (matches c) ws of None \<Rightarrow> c | Some w \<Rightarrow> SetResponse (response w) c)"
  by (simp add: findResponse_find split: option.splits)

lemma HandleReadCommand_waitlist:
  "m_waitResponseCommandList (HandleReadCommand c e) =
     snd (findResponse c (m_waitResponseCommandList e))"
  by (simp add: HandleReadCommand_def SetCtxId_eq Let_def split: prod.splits)

lemma HandleReadCommand_queue:
  "m_readCommandQueue (HandleReadCommand c e) =
     m_readCommandQueue e @ [fst (findResponse c (m_waitResponseCommandList e))]"
  by (simp add: HandleReadCommand_def SetCtxId_eq Let_def split: prod.splits)

lemma HandleReadCommand_ctxId:
  "m_ctxId (HandleReadCommand c e) =
     (if GetType c = START_CONNECTION then GetCtxId c
      else if GetType c = END_CONNECTION then - 1
      else if m_ctxId e < 0 then GetCtxId c else m_ctxId e)"
  using findResponse_header [of c "m_waitResponseCommandList e"]
  by (auto simp: HandleReadCommand_def SetCtxId_eq GetType_def GetCtxId_def Let_def
      split: prod.splits)

lemma HandleReadCommand_counter:
  "m_commandIdCounter (HandleReadCommand c e) = m_commandIdCounter e"
  by (simp add: HandleReadCommand_def SetCtxId_eq Let_def split: prod.splits)

lemma HandleReadCommand_socket: "m_socket (HandleReadCommand c e) = m_socket e"
  by (simp add: HandleReadCommand_def SetCtxId_eq Let_def split: prod.splits)

lemma WriteCommand_eq:
  "m_socket e = Some s \<Longrightarrow> WriteCommand t d e =
     Some (e\<lparr>m_commandIdCounter := m_commandIdCounter e + 2,
             m_socket := Some (Write \<lparr>type = t, ctxId = m_ctxId e,
               commandId = m_commandIdCounter e, dataSize = of_nat (length d)\<rparr> d s)\<rparr>)"
  by (simp add: WriteCommand_def InitCommandHeader_def socket_Write_def GetSize_def)

lemma WriteCommand_response_eq:
  "m_socket e = Some s \<Longrightarrow> WriteCommand_response t d r e =
     Some (e\<lparr>m_commandIdCounter := m_commandIdCounter e + 2,
             m_socket := Some (Write \<lparr>type = t, ctxId = m_ctxId e,
               commandId = m_commandIdCounter e, dataSize = of_nat (length d)\<rparr> d s),
             m_waitResponseCommandList := m_waitResponseCommandList e @
               [\<lparr>header = \<lparr>type = t, ctxId = m_ctxId e,
                    commandId = m_commandIdCounter e, dataSize = of_nat (length d)\<rparr>,
                 response = r\<rparr>]\<rparr>)"
  by (simp add: WriteCommand_response_def InitCommandHeader_def socket_Write_def GetSize_def
      Let_def)

lemma WriteResponse_eq:
  "m_socket e = Some s \<Longrightarrow> GetCommandId c \<noteq> 0 \<Longrightarrow> WriteResponse c t d e =
     Some (e\<lparr>m_socket := Some (Write \<lparr>type = t, ctxId = m_ctxId e,
               commandId = GetCommandId c, dataSize = of_nat (length d)\<rparr> d s)\<rparr>)"
  by (simp add: WriteResponse_def InitCommandHeader_def socket_Write_def GetSize_def
      signed_eq_0_iff)

lemma DoStartConnection_eq:
  "m_socket e = Some s \<Longrightarrow> DoStartConnection c e =
     Some (e\<lparr>m_commandIdCounter := m_commandIdCounter e + 2,
             m_socket := Some (Write \<lparr>type = START_CONNECTION, ctxId = c,
               commandId = m_commandIdCounter e, dataSize = 0\<rparr> [] s)\<rparr>)"
  by (simp add: DoStartConnection_def InitCommandHeader_def socket_Write_def)

lemma socket_Write_ctxId: "socket_Write h d e = Some e' \<Longrightarrow> m_ctxId e' = m_ctxId e"
  by (auto simp: socket_Write_def split: option.splits)

lemma socket_Write_counter:
  "socket_Write h d e = Some e' \<Longrightarrow> m_commandIdCounter e' = m_commandIdCounter e"
  by (auto simp: socket_Write_def split: option.splits)

lemma InitCommandHeader_ctxId: "m_ctxId (snd (InitCommandHeader t n i e)) = m_ctxId e"
  by (simp add: InitCommandHeader_def Let_def)

lemma WriteCommand_ctxId: "WriteCommand t d e = Some e' \<Longrightarrow> m_ctxId e' = m_ctxId e"
  using InitCommandHeader_ctxId [of t "GetSize d" 0 e]
  by (auto simp: WriteCommand_def split: prod.splits dest!: socket_Write_ctxId)

lemma WriteCommand_response_ctxId:
  "WriteCommand_response t d r e = Some e' \<Longrightarrow> m_ctxId e' = m_ctxId e"
  using InitCommandHeader_ctxId [of t "GetSize d" 0 e]
  by (auto simp: WriteCommand_response_def Let_def split: prod.splits option.splits
      dest!: socket_Write_ctxId)

lemma WriteResponse_ctxId: "WriteResponse c t d e = Some e' \<Longrightarrow> m_ctxId e' = m_ctxId e"
  using InitCommandHeader_ctxId [of t "GetSize d" "sint (GetCommandId c)" e]
  by (auto simp: WriteResponse_def split: prod.splits dest!: socket_Write_ctxId)

subsection \<open>The service thread leaves the counter alone\<close>

lemma on_socket_counter: "m_commandIdCounter (on_socket f e) = m_commandIdCounter e"
  by (simp add: on_socket_def)

lemma handleReadData_counter:
  "m_commandIdCounter (handleReadData c error e) = m_commandIdCounter e"
  by (simp add: handleReadData_def on_socket_counter HandleReadCommand_counter)

lemma handleReadCommand_counter:
  "m_commandIdCounter (handleReadCommand c error e) = m_commandIdCounter e"
  by (simp add: handleReadCommand_def on_socket_counter handleReadData_counter Let_def)

lemma poll_one_counter: "m_commandIdCounter (poll_one ev e) = m_commandIdCounter e"
  by (simp add: poll_one_def on_socket_counter handleReadData_counter handleReadCommand_counter
      split: option.splits io_event.splits list.splits read_op.splits)

lemma timed_wait_counter: "m_commandIdCounter (timed_wait events e) = m_commandIdCounter e"
  unfolding timed_wait_def
  by (induction events arbitrary: e) (simp_all add: poll_one_counter)

lemma DoStartConnection_counter:
  "DoStartConnection c e = Some e' \<Longrightarrow> m_commandIdCounter e' = m_commandIdCounter e + 2"
  by (auto simp: DoStartConnection_def InitCommandHeader_def dest!: socket_Write_counter)

lemma StartContext_counter:
  assumes "StartContext c waitSeconds now env events e = Some (0, e')"
  shows "m_commandIdCounter e' = 3"
  using assms
  by (auto simp: StartContext_def Let_def timed_wait_counter StartThread_def
      split: option.splits prod.splits if_splits dest!: DoStartConnection_counter)

lemma StartFrame_counter:
  assumes "StartFrame resolved waitSeconds now env events e = Some (0, e')"
  shows "m_commandIdCounter e' = 2"
  using assms
  by (auto simp: StartFrame_def Let_def timed_wait_counter StartThread_def
      split: option.splits prod.splits if_splits)

subsection \<open>The write side of a connection\<close>




































subsection \<open>Fresh command ids\<close>

lemma fresh_ids_map:
  "fresh_ids rs e = map (\<lambda>k. m_commandIdCounter e + 2 * of_nat k) [0..<length rs]"
proof (induction rs arbitrary: e)
  case Nil
  then show ?case by simp
next
  case (Cons r rs)
  obtain t n where r: "r = (t, n)" by (cases r)
  have "map (\<lambda>k. m_commandIdCounter e + 2 * of_nat k) [0..<Suc (length rs)]
      = m_commandIdCounter e
        # map (\<lambda>k. m_commandIdCounter e + 2 + 2 * of_nat k) [0..<length rs]"
    by (simp add: upt_conv_Cons map_Suc_upt [symmetric] algebra_simps del: upt_Suc)
  then show ?case
    by (simp add: r InitCommandHeader_def Cons.IH)
qed

lemma fresh_ids_distinct:
  assumes "length rs \<le> 2 ^ 31"
  shows "distinct (fresh_ids rs e)"
proof -
  have "inj_on (\<lambda>k. m_commandIdCounter e + 2 * (of_nat k :: 32 word)) {0..<length rs}"
  proof (rule inj_onI)
    fix j k
    assume j: "j \<in> {0..<length rs}" and k: "k \<in> {0..<length rs}"
      and eq: "m_commandIdCounter e + 2 * (of_nat j :: 32 word)
        = m_commandIdCounter e + 2 * of_nat k"
    from eq have "(of_nat (2 * j) :: 32 word) = of_nat (2 * k)" by simp
    moreover have "2 * j < 2 ^ LENGTH(32)" "2 * k < 2 ^ LENGTH(32)" using j k assms by auto
    ultimately have "2 * j = 2 * k"
      by (simp only: word_of_nat_eq_iff take_bit_nat_eq_self)
    then show "j = k" by simp
  qed
  then show ?thesis by (simp add: fresh_ids_map distinct_map)
qed

lemma fresh_ids_parity:
  "i \<in> set (fresh_ids rs e) \<Longrightarrow> even i = even (m_commandIdCounter e)"
  by (auto simp: fresh_ids_map)

lemma fresh_ids_wrap: "\<not> distinct (fresh_ids (replicate (2 ^ 31 + 1) (t, n)) e)"
proof -
  let ?xs = "fresh_ids (replicate (2 ^ 31 + 1) (t, n)) e"
  have "?xs ! 0 = ?xs ! (2 ^ 31)"
    by (simp add: fresh_ids_map nth_append del: upt_Suc)
  moreover have "length ?xs = 2 ^ 31 + 1" by (simp add: fresh_ids_map)
  ultimately show ?thesis
    using nth_eq_iff_index_eq [of ?xs 0 "2 ^ 31"] by auto
qed

text \<open>
  Claim C2, as stated, fails in one point: the ids of one role do repeat within a session.
  The counter is 32 bits wide and advances by 2, so the fresh id number \<open>2 ^ 31\<close> is the
  first one again: \<open>2 ^ 31 + 1\<close> requests in the server role do not get distinct ids.
\<close>

theorem command_id_wraps:
  "m_commandIdCounter example_server = 3
   \<and> \<not> distinct (fresh_ids (replicate (2 ^ 31 + 1) (BREAK, 0)) example_server)"
proof (rule conjI)
  show "m_commandIdCounter example_server = 3" by (simp add: example_server_def)
  show "\<not> distinct (fresh_ids (replicate (2 ^ 31 + 1) (BREAK, 0)) example_server)"
    by (rule fresh_ids_wrap)
qed

text \<open>
  Claim C2, amended. \<^verbatim>\<open>StartContext\<close> (server role) seeds the counter with 1 and sends
  START_CONNECTION with the fresh id 1, so it returns with the counter at 3;
  \<^verbatim>\<open>StartFrame\<close> (client role) seeds it with 2. Every fresh id is the counter's value, and
  the counter then advances by 2, modulo \<open>2 ^ 32\<close>: the ids of a run of requests are
  counter, counter + 2, and so on; what the service thread does between two requests
  leaves the counter alone. Up to \<open>2 ^ 31\<close> consecutive fresh ids of one engine
  are pairwise distinct. From an odd counter all ids are odd and from an even one all are
  even, for any number of requests, so the ids of the two roles never collide.
\<close>

theorem command_id_partition:
  "(StartContext c waitSeconds now env events e = Some (0, e1) \<longrightarrow> m_commandIdCounter e1 = 3)
   \<and> (StartFrame resolved waitSeconds now env events e = Some (0, e2)
        \<longrightarrow> m_commandIdCounter e2 = 2)
   \<and> (m_socket e = Some s \<longrightarrow> DoStartConnection c e =
        Some (e\<lparr>m_commandIdCounter := m_commandIdCounter e + 2,
          m_socket := Some (Write \<lparr>type = START_CONNECTION, ctxId = c,
            commandId = m_commandIdCounter e, dataSize = 0\<rparr> [] s)\<rparr>))
   \<and> InitCommandHeader t n 0 e =
        (\<lparr>type = t, ctxId = m_ctxId e, commandId = m_commandIdCounter e, dataSize = of_nat n\<rparr>,
         e\<lparr>m_commandIdCounter := m_commandIdCounter e + 2\<rparr>)
   \<and> m_commandIdCounter (poll_one ev e) = m_commandIdCounter e
   \<and> fresh_ids rs e = map (\<lambda>k. m_commandIdCounter e + 2 * of_nat k) [0..<length rs]
   \<and> (length rs \<le> 2 ^ 31 \<longrightarrow> distinct (fresh_ids rs e))
   \<and> (odd (m_commandIdCounter a) \<and> even (m_commandIdCounter b) \<longrightarrow>
        (\<forall>i\<in>set (fresh_ids rs a). odd i) \<and> (\<forall>j\<in>set (fresh_ids rs' b). even j)
        \<and> set (fresh_ids rs a) \<inter> set (fresh_ids rs' b) = {})"
proof (intro conjI impI)
  show "fresh_ids rs e = map (\<lambda>k. m_commandIdCounter e + 2 * of_nat k) [0..<length rs]"
    by (rule fresh_ids_map)
  show "m_commandIdCounter (poll_one ev e) = m_commandIdCounter e"
    by (rule poll_one_counter)
  show "InitCommandHeader t n 0 e =
        (\<lparr>type = t, ctxId = m_ctxId e, commandId = m_commandIdCounter e, dataSize = of_nat n\<rparr>,
         e\<lparr>m_commandIdCounter := m_commandIdCounter e + 2\<rparr>)"
    by (simp add: InitCommandHeader_def)
next
  assume "StartContext c waitSeconds now env events e = Some (0, e1)"
  then show "m_commandIdCounter e1 = 3" by (rule StartContext_counter)
next
  assume "StartFrame resolved waitSeconds now env events e = Some (0, e2)"
  then show "m_commandIdCounter e2 = 2" by (rule StartFrame_counter)
next
  assume "m_socket e = Some s"
  then show "DoStartConnection c e =
        Some (e\<lparr>m_commandIdCounter := m_commandIdCounter e + 2,
          m_socket := Some (Write \<lparr>type = START_CONNECTION, ctxId = c,
            commandId = m_commandIdCounter e, dataSize = 0\<rparr> [] s)\<rparr>)"
    by (rule DoStartConnection_eq)
next
  assume "length rs \<le> 2 ^ 31"
  then show "distinct (fresh_ids rs e)" by (rule fresh_ids_distinct)
next
  assume p: "odd (m_commandIdCounter a) \<and> even (m_commandIdCounter b)"
  then show "\<forall>i\<in>set (fresh_ids rs a). odd i" by (simp add: fresh_ids_parity)
  from p show "\<forall>j\<in>set (fresh_ids rs' b). even j" by (simp add: fresh_ids_parity)
  from p show "set (fresh_ids rs a) \<inter> set (fresh_ids rs' b) = {}"
    using fresh_ids_parity [of _ rs a] fresh_ids_parity [of _ rs' b] by blast
qed

text \<open>
  The witness: both example starts succeed; START_CONNECTION takes the id 1 from the server's
  seeded counter; three requests on each side get the ids 3, 5, 7 and 2, 4, 6.
\<close>

theorem command_id_partition_witness:
  "StartContext 7 2 example_now example_env example_server_events RemoteEngine
     = Some (0, example_server)
   \<and> StartFrame [80] 2 example_now example_env example_client_events RemoteEngine
     = Some (0, example_client)
   \<and> m_commandIdCounter example_server = 3 \<and> m_commandIdCounter example_client = 2
   \<and> m_socket example_seeded_server = Some example_socket
   \<and> DoStartConnection 7 example_seeded_server =
       Some (example_seeded_server\<lparr>m_commandIdCounter := 3,
         m_socket := Some (Write \<lparr>type = START_CONNECTION, ctxId = 7, commandId = 1,
           dataSize = 0\<rparr> [] example_socket)\<rparr>)
   \<and> length [(BREAK, 0 :: nat), (EVAL, 5), (RESUME, 0)] \<le> 2 ^ 31
   \<and> odd (m_commandIdCounter example_server) \<and> even (m_commandIdCounter example_client)
   \<and> fresh_ids [(BREAK, 0), (EVAL, 5), (RESUME, 0)] example_server = [3, 5, 7]
   \<and> fresh_ids [(SET_BREAKPOINT, 9), (EVAL, 5), (STEPINTO, 0)] example_client = [2, 4, 6]
   \<and> distinct (fresh_ids [(BREAK, 0), (EVAL, 5), (RESUME, 0)] example_server)
   \<and> set (fresh_ids [(BREAK, 0), (EVAL, 5), (RESUME, 0)] example_server)
        \<inter> set (fresh_ids [(SET_BREAKPOINT, 9), (EVAL, 5), (STEPINTO, 0)] example_client) = {}"
proof -
  have s1: "StartContext 7 2 example_now example_env example_server_events RemoteEngine
      = Some (0, example_server)"
    by (simp add: StartContext_def ContextSocket_Start_def ContextSocket_def async_accept_def
        example_env_def example_now_def xtime_cmp_def IsConnected_def
        ContextSocket_poll_one_def accept_completes_def handleAccept_def Connected_def
        post_def run_posted_def run_handler_def connected_def asyncReadCommand_def
        async_read_def StartThread_def RemoteEngine_def timed_wait_def poll_one_def
        SocketBase.truncate_def handleReadCommand_def example_server_events_def
        RemoteCommand_def GetCtxId_def GetDataSize_def handleReadData_def on_socket_def
        HandleReadCommand_def GetType_def SetCtxId_def Let_def DoStartConnection_def
        InitCommandHeader_def socket_Write_def Write_def example_server_def
        example_socket_def example_command_def)
  have s2: "StartFrame [80] 2 example_now example_env example_client_events RemoteEngine
      = Some (0, example_client)"
    by (simp add: StartFrame_def FrameSocket_Start_def FrameSocket_def async_connect_def
        example_env_def example_now_def xtime_cmp_def IsConnected_def
        FrameSocket_poll_one_def connect_completes_def handleConnect_def Connected_def
        post_def run_posted_def run_handler_def connected_def asyncReadCommand_def
        async_read_def StartThread_def RemoteEngine_def timed_wait_def poll_one_def
        SocketBase.truncate_def handleReadCommand_def example_client_events_def
        RemoteCommand_def GetCtxId_def GetDataSize_def handleReadData_def on_socket_def
        HandleReadCommand_def GetType_def SetCtxId_def Let_def example_client_def
        example_socket_def example_command_def)
  have 3: "m_commandIdCounter example_server = 3"
    by (simp add: example_server_def)
  have 2: "m_commandIdCounter example_client = 2"
    by (simp add: example_client_def)
  have s: "m_socket example_seeded_server = Some example_socket"
    and 1: "m_commandIdCounter example_seeded_server = 1"
    by (simp_all add: example_seeded_server_def)
  have l: "length [(BREAK, 0 :: nat), (EVAL, 5), (RESUME, 0)] \<le> 2 ^ 31" by simp
  have ids1: "fresh_ids [(BREAK, 0), (EVAL, 5), (RESUME, 0)] example_server = [3, 5, 7]"
    by (simp add: 3 fresh_ids_map)
  have ids2: "fresh_ids [(SET_BREAKPOINT, 9), (EVAL, 5), (STEPINTO, 0)] example_client
      = [2, 4, 6]"
    by (simp add: 2 fresh_ids_map)
  note P = command_id_partition
  note P2 = P [THEN conjunct2]
  note P3 = P2 [THEN conjunct2]
  note P7 = P3 [THEN conjunct2, THEN conjunct2, THEN conjunct2, THEN conjunct2]
  have "m_commandIdCounter example_server = 3"
    by (rule P [THEN conjunct1, THEN mp, OF s1])
  moreover have "m_commandIdCounter example_client = 2"
    by (rule P2 [THEN conjunct1, THEN mp, OF s2])
  moreover have "DoStartConnection 7 example_seeded_server =
       Some (example_seeded_server\<lparr>m_commandIdCounter := 3,
         m_socket := Some (Write \<lparr>type = START_CONNECTION, ctxId = 7, commandId = 1,
           dataSize = 0\<rparr> [] example_socket)\<rparr>)"
    using P3 [THEN conjunct1, THEN mp, OF s, of 7] by (simp add: 1)
  moreover have "distinct (fresh_ids [(BREAK, 0), (EVAL, 5), (RESUME, 0)] example_server)"
    by (rule P7 [THEN conjunct1, THEN mp, OF l])
  moreover have p: "odd (m_commandIdCounter example_server)
      \<and> even (m_commandIdCounter example_client)"
    by (simp add: 2 3)
  moreover have "set (fresh_ids [(BREAK, 0), (EVAL, 5), (RESUME, 0)] example_server)
        \<inter> set (fresh_ids [(SET_BREAKPOINT, 9), (EVAL, 5), (STEPINTO, 0)] example_client) = {}"
    using P7 [THEN conjunct2, THEN mp, OF p] by blast
  ultimately show ?thesis
    using s1 s2 s l ids1 ids2 by simp
qed

subsection \<open>Correlation of replies\<close>

text \<open>
  Claim C3. On receipt of a command the waiting list is scanned in order; the first entry
  whose \<open>(peerId, commandId)\<close> equals the command's is removed, once (later entries stay,
  also matching ones), and its continuation is attached to the command: it becomes the
  command's \<^verbatim>\<open>m_response\<close>, header and payload staying as received. Match or not, the
  command, with the continuation if one was found and as it was received if none was, is
  appended to the queue of received commands: a reply that matches no waiting request is
  delivered like any other command.
\<close>

theorem HandleReadCommand_correlation:
  "m_waitResponseCommandList (HandleReadCommand c e) =
      takeWhile (\<lambda>w. \<not> matches c w) (m_waitResponseCommandList e)
        @ drop 1 (dropWhile (\<lambda>w. \<not> matches c w) (m_waitResponseCommandList e))
   \<and> m_readCommandQueue (HandleReadCommand c e) =
      m_readCommandQueue e @
        [case List.find (matches c) (m_waitResponseCommandList e) of
           None \<Rightarrow> c | Some w \<Rightarrow> c\<lparr>m_response := response w\<rparr>]"
  by (simp only: HandleReadCommand_waitlist HandleReadCommand_queue findResponse_snd
      findResponse_fst SetResponse_def simp_thms)

text \<open>
  The theorem at work: a reply to request 5 takes the second waiting entry, and the queued
  command holds that entry's continuation 50; a command with an id nobody waits for is
  delivered as it came, without continuation.
\<close>

lemma HandleReadCommand_correlation_example:
  "m_waitResponseCommandList (HandleReadCommand (example_command VALUE_VARLIST 7 5) example_engine)
     = [\<lparr>header = \<lparr>type = EVAL, ctxId = 7, commandId = 3, dataSize = 2\<rparr>, response = Some 30\<rparr>]
   \<and> m_readCommandQueue (HandleReadCommand (example_command VALUE_VARLIST 7 5) example_engine)
     = [\<lparr>m_header = \<lparr>type = VALUE_VARLIST, ctxId = 7, commandId = 5, dataSize = 0\<rparr>,
         m_data = [], m_response = Some 50\<rparr>]
   \<and> m_waitResponseCommandList (HandleReadCommand (example_command BREAK 7 8) example_engine)
     = m_waitResponseCommandList example_engine
   \<and> m_readCommandQueue (HandleReadCommand (example_command BREAK 7 8) example_engine)
     = [\<lparr>m_header = \<lparr>type = BREAK, ctxId = 7, commandId = 8, dataSize = 0\<rparr>,
         m_data = [], m_response = None\<rparr>]"
  by (simp add: HandleReadCommand_waitlist HandleReadCommand_queue example_engine_def
      example_command_def RemoteCommand_def GetCtxId_def GetCommandId_def SetResponse_def)

subsection \<open>Failures and the close signal\<close>

text \<open>
  Claim C4 holds in its first half only, and the code is at fault in the second. When the
  handler of a header read is given, without error, a header with peerId -1 and no payload,
  it closes the socket and sets the connected flag to false, and then goes on: the
  command is handed to the engine (here it lands in the queue of received commands) and
  the next header read is issued on the closed socket. The state the handler finds is
  \<open>example_engine\<close> with the completed read taken off the outstanding reads.
\<close>

theorem negative_ctxId_still_dispatched:
  "handleReadCommand (example_command CHANGED_STATE (- 1) 2) False
     (on_socket (\<lambda>s. s\<lparr>async_reads := []\<rparr>) example_engine) =
   example_engine\<lparr>m_readCommandQueue := [example_command CHANGED_STATE (- 1) 2],
     m_socket := Some (example_socket\<lparr>m_isConnected := False, m_socket_is_open := False,
       async_reads := [ReadHeader]\<rparr>)\<rparr>"
  by (simp add: handleReadCommand_def handleReadData_def on_socket_def doClose_def
      asyncReadCommand_def async_read_def HandleReadCommand_def SetCtxId_def Let_def
      example_command_def RemoteCommand_def GetCtxId_def GetDataSize_def GetType_def
      GetCommandId_def example_engine_def example_socket_def)

text \<open>
  The same for every header with a negative peerId and no payload, on every engine: the
  command is correlated and appended to the queue of received commands all the same.
\<close>

lemma negative_ctxId_dispatched_always:
  assumes "GetCtxId c < 0" and "GetDataSize c = 0"
  shows "m_readCommandQueue (handleReadCommand c False e) =
     m_readCommandQueue e @ [fst (findResponse c (m_waitResponseCommandList e))]"
  using assms
  by (simp add: handleReadCommand_def handleReadData_def on_socket_def HandleReadCommand_queue
      Let_def)

lemma poll_one_failure:
  assumes "m_socket e = Some s"
  shows "(async_writes s = w # ws \<longrightarrow> poll_one (WriteDone True) e =
            e\<lparr>m_socket := Some (doClose (s\<lparr>async_writes := ws\<rparr>))\<rparr>)
       \<and> (async_reads s = ReadHeader # rs \<longrightarrow> poll_one (HeaderRead h True) e =
            e\<lparr>m_socket := Some (doClose (s\<lparr>async_reads := rs\<rparr>))\<rparr>)
       \<and> (async_reads s = ReadData c # rs \<longrightarrow> poll_one (DataRead d True) e =
            e\<lparr>m_socket := Some (doClose (s\<lparr>async_reads := rs\<rparr>))\<rparr>)"
  using assms
  by (cases w) (simp add: poll_one_def on_socket_def write_completes_def handleWrite_def
      handleReadCommand_def handleReadData_def)

text \<open>
  When \<^verbatim>\<open>close()\<close> returns, a failure reported to the completion handler of a write, of a
  header read or of a payload read does one thing: \<^verbatim>\<open>doClose\<close>, which closes the socket
  and sets the connected flag to false. Nothing else changes: the command being written
  stays at the head of the queue, no write and no read is issued again, the engine's own
  state is as it was. So it is when the I/O service reports a failed completion of the
  oldest outstanding write or read: the operation is no longer outstanding and the socket
  is closed.
\<close>

theorem io_failure_closes:
  "handleWrite deleteCommand True s = doClose s
   \<and> handleReadCommand c True e = on_socket doClose e
   \<and> handleReadData c True e = on_socket doClose e
   \<and> doClose s = s\<lparr>m_socket_is_open := False, m_isConnected := False\<rparr>
   \<and> \<not> IsConnected (doClose s)
   \<and> \<not> Engine_IsConnected (on_socket doClose e)
   \<and> (m_socket e = Some s \<longrightarrow>
        (async_writes s = w # ws \<longrightarrow> poll_one (WriteDone True) e =
           e\<lparr>m_socket := Some (doClose (s\<lparr>async_writes := ws\<rparr>))\<rparr>)
      \<and> (async_reads s = ReadHeader # rs \<longrightarrow> poll_one (HeaderRead h True) e =
           e\<lparr>m_socket := Some (doClose (s\<lparr>async_reads := rs\<rparr>))\<rparr>)
      \<and> (async_reads s = ReadData c # rs \<longrightarrow> poll_one (DataRead d True) e =
           e\<lparr>m_socket := Some (doClose (s\<lparr>async_reads := rs\<rparr>))\<rparr>))"
  using poll_one_failure [of e s w ws rs h c d]
  by (simp add: handleWrite_def handleReadCommand_def handleReadData_def doClose_def
      Engine_IsConnected_def on_socket_def IsConnected_def split: option.splits)

text \<open>
  The witness: the busy engine is connected; a failed write, a failed payload read and, on
  the idle engine, a failed header read each leave it closed, with the queue of commands to
  write as it was.
\<close>

theorem io_failure_closes_witness:
  "Engine_IsConnected example_busy_engine
   \<and> poll_one (WriteDone True) example_busy_engine =
       example_busy_engine\<lparr>m_socket := Some (example_busy_socket\<lparr>async_writes := [],
         m_socket_is_open := False, m_isConnected := False\<rparr>)\<rparr>
   \<and> poll_one (DataRead [104, 105] True) example_busy_engine =
       example_busy_engine\<lparr>m_socket := Some (example_busy_socket\<lparr>async_reads := [],
         m_socket_is_open := False, m_isConnected := False\<rparr>)\<rparr>
   \<and> poll_one (HeaderRead example_header True) example_engine =
       example_engine\<lparr>m_socket := Some (example_socket\<lparr>async_reads := [],
         m_socket_is_open := False, m_isConnected := False\<rparr>)\<rparr>
   \<and> \<not> Engine_IsConnected (poll_one (WriteDone True) example_busy_engine)"
proof -
  have b: "m_socket example_busy_engine = Some example_busy_socket"
    by (simp add: example_busy_engine_def)
  have i: "m_socket example_engine = Some example_socket"
    by (simp add: example_engine_def)
  have w: "async_writes example_busy_socket =
      (True, HeaderBuf \<lparr>type = BREAK, ctxId = 7, commandId = 7, dataSize = 0\<rparr>) # []"
    and r: "async_reads example_busy_socket = ReadData (RemoteCommand
       \<lparr>type = VALUE_STRING, ctxId = 7, commandId = 3, dataSize = 2\<rparr> [0, 0]) # []"
    by (simp_all add: example_busy_socket_def)
  have h: "async_reads example_socket = ReadHeader # []"
    by (simp add: example_socket_def)
  note P = io_failure_closes [THEN conjunct2, THEN conjunct2, THEN conjunct2]
  note Q = P [THEN conjunct2, THEN conjunct2, THEN conjunct2]
  have "poll_one (WriteDone True) example_busy_engine =
      example_busy_engine\<lparr>m_socket := Some (doClose (example_busy_socket\<lparr>async_writes := []\<rparr>))\<rparr>"
    by (rule Q [THEN mp, OF b, THEN conjunct1, THEN mp, OF w])
  moreover have "poll_one (DataRead [104, 105] True) example_busy_engine =
      example_busy_engine\<lparr>m_socket := Some (doClose (example_busy_socket\<lparr>async_reads := []\<rparr>))\<rparr>"
    by (rule Q [THEN mp, OF b, THEN conjunct2, THEN conjunct2, THEN mp, OF r])
  moreover have "poll_one (HeaderRead example_header True) example_engine =
      example_engine\<lparr>m_socket := Some (doClose (example_socket\<lparr>async_reads := []\<rparr>))\<rparr>"
    by (rule Q [THEN mp, OF i, THEN conjunct2, THEN conjunct1, THEN mp, OF h])
  ultimately show ?thesis
    by (simp add: doClose_def Engine_IsConnected_def IsConnected_def b
        example_busy_socket_def)
qed


text \<open>
  With exceptions: the handlers as defined first are the handlers when \<^verbatim>\<open>close()\<close>
  returns.
\<close>

lemma doClose_exn_returns: "doClose_exn False s = Returned (doClose s)"
  by (simp add: doClose_exn_def doClose_def)

lemma handleWrite_exn_returns:
  "handleWrite_exn False deleteCommand error s = Returned (handleWrite deleteCommand error s)"
  by (simp add: handleWrite_exn_def handleWrite_def doClose_exn_returns Let_def)

lemma on_socket_exn_returns:
  "(\<And>s. f s = Returned (g s)) \<Longrightarrow> on_socket_exn f e = Returned (on_socket g e)"
  by (cases "m_socket e") (simp_all add: on_socket_exn_def on_socket_def)

lemma handleReadData_exn_returns:
  "handleReadData_exn False c error e = Returned (handleReadData c error e)"
  by (simp add: handleReadData_exn_def handleReadData_def
      on_socket_exn_returns [of "doClose_exn False" doClose, OF doClose_exn_returns])

lemma handleReadCommand_exn_returns:
  "handleReadCommand_exn False c error e = Returned (handleReadCommand c error e)"
  by (simp add: handleReadCommand_exn_def handleReadCommand_def handleReadData_exn_returns
      on_socket_exn_returns [of "doClose_exn False" doClose, OF doClose_exn_returns] Let_def)

lemma run_posted_exn_returns: "run_posted_exn False s = Returned (run_posted s)"
  by (simp add: run_posted_exn_def run_posted_def run_handler_exn_def run_handler_def
      doClose_exn_returns split: list.splits handler.splits)

lemma write_completes_exn_returns:
  "write_completes_exn False error s = Returned (write_completes error s)"
  by (simp add: write_completes_exn_def write_completes_def handleWrite_exn_returns
      split: list.splits prod.splits)

lemma poll_one_exn_returns: "poll_one_exn (Some (ev, False)) e = Returned (poll_one ev e)"
  by (simp add: poll_one_exn_def poll_one_def handleReadCommand_exn_returns
      handleReadData_exn_returns
      on_socket_exn_returns [of "run_posted_exn False" run_posted, OF run_posted_exn_returns]
      on_socket_exn_returns [of "write_completes_exn False err" "write_completes err" for err,
        OF write_completes_exn_returns]
      split: option.splits io_event.splits list.splits read_op.splits)

text \<open>
  Whether \<^verbatim>\<open>close()\<close> fails or not, a failure reported to a completion handler makes the
  handler call \<^verbatim>\<open>doClose\<close> and do nothing else.
\<close>

lemma io_failure_exn:
  "handleWrite_exn close_fails deleteCommand True s = doClose_exn close_fails s
   \<and> handleReadCommand_exn close_fails c True e = on_socket_exn (doClose_exn close_fails) e
   \<and> handleReadData_exn close_fails c True e = on_socket_exn (doClose_exn close_fails) e"
  by (simp add: handleWrite_exn_def handleReadCommand_exn_def handleReadData_exn_def)

text \<open>
  No exception leaves \<^verbatim>\<open>ServiceThread\<close>, the function the service thread runs, and a thread
  that has ended is marked inactive.
\<close>

lemma ServiceThread_catches: "ServiceThread rounds e \<noteq> Some (Thrown e')"
  by (simp add: ServiceThread_def split: option.splits outcome.splits)

lemma ServiceThread_inactive:
  "\<not> IsThreadActive e \<Longrightarrow> ServiceThread rounds e = Some (Returned e') \<Longrightarrow> \<not> IsThreadActive e'"
  by (auto simp add: ServiceThread_def IsThreadActive_def SetThreadActive_def
      split: option.splits outcome.splits)

text \<open>
  Claim C5 holds as long as \<^verbatim>\<open>m_socket.close()\<close> returns, and the code is at fault when it
  throws. The busy engine is connected and its service thread starts. The write of the
  queued header completes with a failure and \<^verbatim>\<open>handleWrite\<close> calls \<^verbatim>\<open>doClose\<close>; there
  \<^verbatim>\<open>close()\<close> fails and throws, and the assignment \<^verbatim>\<open>m_isConnected = false\<close> is not
  reached. The exception leaves the handler, \<^verbatim>\<open>poll_one()\<close> and the loop of the service
  thread, and is caught in \<^verbatim>\<open>ServiceThread\<close>, which ends: it is not propagated to a caller
  of the public API, but the failure is not observable either, as \<^verbatim>\<open>IsConnected()\<close> is
  still true, on an engine whose service thread is gone. In the same run with a
  \<^verbatim>\<open>close()\<close> that returns, the socket is closed and \<^verbatim>\<open>IsConnected()\<close> is false when the
  thread is stopped.
\<close>

theorem close_failure_leaves_connected:
  "Engine_IsConnected example_starting_engine
   \<and> poll_one_exn (Some (WriteDone True, True)) (SetThreadActive True example_starting_engine) =
       Thrown (example_busy_engine\<lparr>m_socket := Some (example_busy_socket\<lparr>async_writes := []\<rparr>)\<rparr>)
   \<and> ServiceThread_loop example_close_fails_rounds (SetThreadActive True example_starting_engine) =
       Some (Thrown (example_busy_engine\<lparr>m_socket :=
         Some (example_busy_socket\<lparr>async_writes := []\<rparr>)\<rparr>))
   \<and> ServiceThread example_close_fails_rounds example_starting_engine =
       Some (Returned (example_starting_engine\<lparr>m_socket :=
         Some (example_busy_socket\<lparr>async_writes := []\<rparr>)\<rparr>))
   \<and> Engine_IsConnected (example_starting_engine\<lparr>m_socket :=
         Some (example_busy_socket\<lparr>async_writes := []\<rparr>)\<rparr>)
   \<and> m_isConnected (example_busy_socket\<lparr>async_writes := []\<rparr>)
   \<and> ServiceThread example_rounds example_starting_engine =
       Some (Returned (example_starting_engine\<lparr>m_socket :=
         Some (example_busy_socket\<lparr>async_writes := [], m_socket_is_open := False,
           m_isConnected := False\<rparr>)\<rparr>))
   \<and> \<not> Engine_IsConnected (example_starting_engine\<lparr>m_socket :=
         Some (example_busy_socket\<lparr>async_writes := [], m_socket_is_open := False,
           m_isConnected := False\<rparr>)\<rparr>)"
  by (simp add: ServiceThread_def ServiceThread_loop.simps polls_exn.simps poll_one_exn_def
      polled_def on_socket_exn_def write_completes_exn_def handleWrite_exn_def doClose_exn_def
      IsThreadActive_def SetThreadActive_def Engine_IsConnected_def IsConnected_def
      example_starting_engine_def example_rounds_def example_close_fails_rounds_def
      example_busy_engine_def example_engine_def example_busy_socket_def Let_def)


subsection \<open>The peer identity\<close>

text \<open>
  Claim C6. The dispatch of a received command sets the peer identity: START_CONNECTION
  sets it to the command's peerId, END_CONNECTION sets it back to the unset value -1, and
  any other command received while the identity is unset (negative) makes the engine adopt
  the command's peerId.
\<close>

theorem HandleReadCommand_identity:
  "(GetType c = START_CONNECTION \<longrightarrow> m_ctxId (HandleReadCommand c e) = GetCtxId c)
   \<and> (GetType c = END_CONNECTION \<longrightarrow> m_ctxId (HandleReadCommand c e) = - 1)
   \<and> (GetType c \<noteq> START_CONNECTION \<and> GetType c \<noteq> END_CONNECTION \<and> m_ctxId e < 0
        \<longrightarrow> m_ctxId (HandleReadCommand c e) = GetCtxId c)"
  by (simp add: HandleReadCommand_ctxId)

theorem HandleReadCommand_identity_witness:
  "m_ctxId (HandleReadCommand (example_command START_CONNECTION 9 2) example_engine) = 9
   \<and> m_ctxId (HandleReadCommand (example_command END_CONNECTION 7 4) example_engine) = - 1
   \<and> m_ctxId (RemoteEngine :: nat RemoteEngine) < 0
   \<and> m_ctxId (HandleReadCommand (example_command BREAK 7 6) RemoteEngine) = 7"
  using HandleReadCommand_identity [of "example_command START_CONNECTION 9 2" example_engine]
    HandleReadCommand_identity [of "example_command END_CONNECTION 7 4" example_engine]
    HandleReadCommand_identity [of "example_command BREAK 7 6" "RemoteEngine :: nat RemoteEngine"]
  by (simp add: example_command_def RemoteCommand_def GetType_def GetCtxId_def RemoteEngine_def)

text \<open>
  Claim C7, as stated, fails: the identity is not immutable once it is non-negative. With
  identity 7, a received END_CONNECTION resets it to -1 and a received START_CONNECTION
  carrying 9 changes it to 9.
\<close>

theorem ctxId_not_immutable:
  "0 \<le> m_ctxId example_engine
   \<and> m_ctxId (HandleReadCommand (example_command END_CONNECTION 7 4) example_engine)
       \<noteq> m_ctxId example_engine
   \<and> m_ctxId (HandleReadCommand (example_command START_CONNECTION 9 2) example_engine)
       \<noteq> m_ctxId example_engine"
  by (simp add: HandleReadCommand_ctxId example_command_def RemoteCommand_def GetType_def
      GetCtxId_def example_engine_def)

text \<open>
  Claim C7, amended. Once the identity is non-negative, a received command that is neither
  START_CONNECTION nor END_CONNECTION leaves it as it is, and so does every send:
  \<^verbatim>\<open>WriteCommand\<close> without and with a continuation, and \<^verbatim>\<open>WriteResponse\<close>.
\<close>

theorem ctxId_kept_outside_handshake:
  "(0 \<le> m_ctxId e \<and> GetType c \<noteq> START_CONNECTION \<and> GetType c \<noteq> END_CONNECTION
      \<longrightarrow> m_ctxId (HandleReadCommand c e) = m_ctxId e)
   \<and> (WriteCommand t d e = Some e1 \<longrightarrow> m_ctxId e1 = m_ctxId e)
   \<and> (WriteCommand_response t d r e = Some e2 \<longrightarrow> m_ctxId e2 = m_ctxId e)
   \<and> (WriteResponse c t d e = Some e3 \<longrightarrow> m_ctxId e3 = m_ctxId e)"
  by (simp add: HandleReadCommand_ctxId WriteCommand_ctxId WriteCommand_response_ctxId
      WriteResponse_ctxId)

theorem ctxId_kept_outside_handshake_witness:
  "0 \<le> m_ctxId example_engine
   \<and> m_ctxId (HandleReadCommand (example_command VALUE_STRING 9 3) example_engine) = 7
   \<and> map_option m_ctxId (WriteCommand BREAK [] example_engine) = Some 7
   \<and> map_option m_ctxId (WriteCommand_response BREAK [] (Some 70) example_engine) = Some 7
   \<and> map_option m_ctxId
        (WriteResponse (example_command VALUE_STRING 9 3) BREAK [] example_engine) = Some 7"
proof -
  have s: "m_socket example_engine = Some example_socket"
    by (simp add: example_engine_def)
  have i: "GetCommandId (example_command VALUE_STRING 9 3) \<noteq> 0"
    by (simp add: example_command_def RemoteCommand_def GetCommandId_def)
  obtain e1 where e1: "WriteCommand BREAK [] example_engine = Some e1"
    by (simp add: WriteCommand_eq [OF s])
  obtain e2 where e2: "WriteCommand_response BREAK [] (Some 70) example_engine = Some e2"
    by (simp add: WriteCommand_response_eq [OF s])
  obtain e3 where e3:
    "WriteResponse (example_command VALUE_STRING 9 3) BREAK [] example_engine = Some e3"
    by (simp add: WriteResponse_eq [OF s i])
  have t: "GetType (example_command VALUE_STRING 9 3) = VALUE_STRING"
    by (simp add: example_command_def RemoteCommand_def GetType_def)
  have c: "m_ctxId example_engine = 7"
    by (simp add: example_engine_def)
  show ?thesis
    using ctxId_kept_outside_handshake [of example_engine "example_command VALUE_STRING 9 3"
        BREAK "[]" e1 "Some 70" e2 e3] e1 e2 e3
    by (simp add: t c)
qed

subsection \<open>Replies\<close>

text \<open>
  A received command with commandId 0: \<^verbatim>\<open>InitCommandHeader\<close> reads the id 0 as the
  request for a fresh id, the reply carries the counter's value and the counter advances.
\<close>

lemma WriteResponse_zero_id:
  assumes "m_socket e = Some s" and "GetCommandId readCommand = 0"
  shows "WriteResponse readCommand t d e =
     Some (e\<lparr>m_commandIdCounter := m_commandIdCounter e + 2,
       m_socket := Some (Write \<lparr>type = t, ctxId = m_ctxId e,
         commandId = m_commandIdCounter e, dataSize = of_nat (length d)\<rparr> d s)\<rparr>)"
  using assms
  by (simp add: WriteResponse_def InitCommandHeader_def socket_Write_def GetSize_def)

text \<open>
  Claim C8, as stated, fails for a received command whose commandId is 0:
  \<^verbatim>\<open>InitCommandHeader\<close> reads the id 0 as a request for a fresh id, so the reply carries
  the counter's value (here 7, not 0) and the counter advances (here to 9).
\<close>

theorem WriteResponse_zero_id_allocates:
  "GetCommandId (example_command EVAL 7 0) = 0
   \<and> WriteResponse (example_command EVAL 7 0) VALUE_STRING [] example_engine =
     Some (example_engine\<lparr>m_commandIdCounter := 9,
       m_socket := Some (Write \<lparr>type = VALUE_STRING, ctxId = 7, commandId = 7, dataSize = 0\<rparr> []
         example_socket)\<rparr>)"
  by (simp add: WriteResponse_def InitCommandHeader_def socket_Write_def GetSize_def
      example_command_def RemoteCommand_def GetCommandId_def example_engine_def)

text \<open>
  Claim C8, amended. For every received command whose commandId is not 0, the response
  sent with \<^verbatim>\<open>WriteResponse\<close> carries the commandId of that command, and the engine is as
  before but for the posted write: the counter of fresh ids is not touched.
\<close>

theorem WriteResponse_reuses_commandId:
  "m_socket e = Some s \<and> GetCommandId readCommand \<noteq> 0 \<longrightarrow>
     WriteResponse readCommand t d e =
       Some (e\<lparr>m_socket := Some (Write \<lparr>type = t, ctxId = m_ctxId e,
         commandId = GetCommandId readCommand, dataSize = of_nat (length d)\<rparr> d s)\<rparr>)"
  by (simp add: WriteResponse_eq)

theorem WriteResponse_reuses_commandId_witness:
  "m_socket example_engine = Some example_socket
   \<and> GetCommandId (example_command EVAL 7 4) \<noteq> 0
   \<and> WriteResponse (example_command EVAL 7 4) VALUE_STRING [104, 105] example_engine =
       Some (example_engine\<lparr>m_socket := Some (Write
         \<lparr>type = VALUE_STRING, ctxId = 7, commandId = 4, dataSize = 2\<rparr> [104, 105]
         example_socket)\<rparr>)"
  using WriteResponse_reuses_commandId [of example_engine example_socket
      "example_command EVAL 7 4" VALUE_STRING "[104, 105]"]
  by (simp add: example_engine_def example_command_def RemoteCommand_def GetCommandId_def)

subsection \<open>The listener's Start\<close>

lemma accept_completes_failed: "accept_completes True s = s"
  by (simp add: accept_completes_def handleAccept_def async_accept_def Let_def)

lemma ContextSocket_poll_one_failed:
  "ContextSocket_poll_one (Some True) s = ContextSocket_poll_one None s"
  by (simp add: ContextSocket_poll_one_def accept_completes_failed)

lemma ex_le_Suc: "(\<exists>k\<le>Suc n. P k) \<longleftrightarrow> P 0 \<or> (\<exists>k\<le>n. P (Suc k))"
proof
  assume "\<exists>k\<le>Suc n. P k"
  then obtain k where k: "k \<le> Suc n" "P k" by blast
  show "P 0 \<or> (\<exists>k\<le>n. P (Suc k))"
  proof (cases k)
    case 0
    with k show ?thesis by simp
  next
    case (Suc j)
    with k show ?thesis by auto
  qed
next
  assume "P 0 \<or> (\<exists>k\<le>n. P (Suc k))"
  then show "\<exists>k\<le>Suc n. P k" by auto
qed

text \<open>
  The result of the waiting loop, read off the environment: \<open>pre\<close> are the rounds whose clock
  reading is before the deadline.
\<close>

lemma ContextSocket_wait_result:
  "map_option fst (ContextSocket_wait endt env s) =
     (let pre = takeWhile (\<lambda>(current, ev). xtime_cmp current endt < 0) env
      in if \<exists>k\<le>length pre. IsConnected (fold ContextSocket_poll_one (map snd (take k pre)) s)
         then Some 0
         else if length pre < length env then Some (- 1) else None)"
proof (induction env arbitrary: s)
  case Nil
  then show ?case by simp
next
  case (Cons r env)
  obtain current ev where r: "r = (current, ev)" by (cases r)
  show ?case
  proof (cases "IsConnected s")
    case True
    then have "\<exists>k\<le>length (takeWhile (\<lambda>(current, ev). xtime_cmp current endt < 0) (r # env)).
        IsConnected (fold ContextSocket_poll_one
          (map snd (take k (takeWhile (\<lambda>(current, ev). xtime_cmp current endt < 0) (r # env)))) s)"
      by (intro exI [of _ 0]) simp
    with True show ?thesis by (simp add: r Let_def)
  next
    case False
    show ?thesis
    proof (cases "xtime_cmp current endt \<ge> 0")
      case True
      with False show ?thesis by (simp add: r)
    next
      case early: False
      with False show ?thesis
        by (auto simp add: r Cons.IH Let_def ex_le_Suc)
    qed
  qed
qed

lemma ContextSocket_wait_failed:
  "ContextSocket_wait endt
     (map (\<lambda>(current, ev). (current, if ev = Some True then None else ev)) env) s
     = ContextSocket_wait endt env s"
proof (induction env arbitrary: s)
  case Nil
  then show ?case by simp
next
  case (Cons r env)
  obtain current ev where r: "r = (current, ev)" by (cases r)
  show ?case by (simp add: r Cons.IH ContextSocket_poll_one_failed)
qed

text \<open>
  Claim C9. \<^verbatim>\<open>ContextSocket::Start(waitSeconds)\<close> issues one accept. With a negative
  \<open>waitSeconds\<close> it returns (0) at once, whatever the environment does. With
  \<open>waitSeconds \<ge> 0\<close> the deadline is the clock reading at the call plus \<open>waitSeconds\<close>, and
  the result is decided by the rounds \<open>pre\<close> of the loop whose clock reading is before the
  deadline: 0 if the socket is connected at the start or after one of their polls; -1 if
  it is not and a clock reading reaches the deadline; and the loop goes on while neither
  has happened. A failed accept is issued again, which leaves the socket as it was with
  its accept outstanding, so \<^verbatim>\<open>Start\<close> returns what it would return if the failures had
  not been reported at all.
\<close>

theorem ContextSocket_Start_result:
  "(waitSeconds < 0 \<longrightarrow> ContextSocket_Start waitSeconds now env s = Some (0, async_accept s))
   \<and> (0 \<le> waitSeconds \<longrightarrow>
        map_option fst (ContextSocket_Start waitSeconds now env s) =
          (let endt = now\<lparr>sec := sec now + waitSeconds\<rparr>;
               pre = takeWhile (\<lambda>(current, ev). xtime_cmp current endt < 0) env
           in if \<exists>k\<le>length pre. IsConnected
                   (fold ContextSocket_poll_one (map snd (take k pre)) (async_accept s))
              then Some 0
              else if length pre < length env then Some (- 1) else None))
   \<and> handleAccept True s = async_accept s
   \<and> accept_completes True s = s
   \<and> ContextSocket_Start waitSeconds now
        (map (\<lambda>(current, ev). (current, if ev = Some True then None else ev)) env) s
      = ContextSocket_Start waitSeconds now env s"
  by (simp add: ContextSocket_Start_def ContextSocket_wait_result ContextSocket_wait_failed
      accept_completes_failed handleAccept_def Let_def)

text \<open>
  The witness, with \<^verbatim>\<open>Start\<close> called at second 100: no waiting for -1; success when the
  peer connects at once; failure for a wait of 2 seconds when the accept fails and the
  peer would connect only at second 102.
\<close>

theorem ContextSocket_Start_result_witness:
  "ContextSocket_Start (- 1) example_now example_env (ContextSocket :: nat ContextSocket)
     = Some (0, async_accept ContextSocket)
   \<and> map_option fst
        (ContextSocket_Start 2 example_now example_env (ContextSocket :: nat ContextSocket))
     = Some 0
   \<and> map_option fst
        (ContextSocket_Start 2 example_now example_late_env (ContextSocket :: nat ContextSocket))
     = Some (- 1)"
proof -
  let ?s = "async_accept (ContextSocket :: nat ContextSocket)"
  have "IsConnected (fold ContextSocket_poll_one (map snd (take 2 example_env)) ?s)"
    by (simp add: example_env_def ContextSocket_poll_one_def async_accept_def
        ContextSocket_def accept_completes_def handleAccept_def Connected_def post_def
        run_posted_def run_handler_def connected_def IsConnected_def asyncReadCommand_def
        async_read_def)
  then have 1: "\<exists>k\<le>2. IsConnected
      (fold ContextSocket_poll_one (map snd (take k example_env)) ?s)"
    by (intro exI [of _ 2]) simp
  have 2: "\<not> (\<exists>k\<le>2. IsConnected
      (fold ContextSocket_poll_one (map snd (take k (take 2 example_late_env))) ?s))"
  proof
    assume "\<exists>k\<le>2. IsConnected
      (fold ContextSocket_poll_one (map snd (take k (take 2 example_late_env))) ?s)"
    then obtain k where k: "k \<le> 2" and c: "IsConnected
        (fold ContextSocket_poll_one (map snd (take k (take 2 example_late_env))) ?s)"
      by blast
    from k consider "k = 0" | "k = 1" | "k = 2" by linarith
    then show False
      using c
      by cases (simp_all add: example_late_env_def ContextSocket_poll_one_def
          async_accept_def ContextSocket_def accept_completes_def handleAccept_def
          IsConnected_def)
  qed
  show ?thesis
    using ContextSocket_Start_result [of "- 1" example_now example_env
        "ContextSocket :: nat ContextSocket"]
      ContextSocket_Start_result [of 2 example_now example_env
        "ContextSocket :: nat ContextSocket"]
      ContextSocket_Start_result [of 2 example_now example_late_env
        "ContextSocket :: nat ContextSocket"]
      1 2
    by (simp add: example_env_def example_late_env_def example_now_def xtime_cmp_def Let_def
        numeral_2_eq_2)
qed

subsection \<open>The peer identity on outbound commands\<close>

lemma handleReadData_socket:
  "m_socket (handleReadData c False e) = map_option asyncReadCommand (m_socket e)"
  by (simp add: handleReadData_def on_socket_def HandleReadCommand_socket)

lemma handleReadCommand_negative:
  assumes "GetCtxId c < 0" and "m_socket e = Some s"
  shows "\<exists>s'. m_socket (handleReadCommand c False e) = Some s'
     \<and> \<not> m_isConnected s' \<and> \<not> m_socket_is_open s'"
  using assms
  by (simp add: handleReadCommand_def handleReadData_socket on_socket_def doClose_def
      async_read_def asyncReadCommand_def Let_def)

text \<open>
  Claim C10. A command built by \<^verbatim>\<open>WriteCommand\<close>, without or with a continuation, carries
  in its header the engine's identity \<^verbatim>\<open>m_ctxId\<close> of the moment of the call. A newly
  constructed engine has the identity -1, so a command sent before an identity is
  negotiated carries -1; and a connection that reads a header with a negative peerId
  closes: its socket is closed and its connected flag false.
\<close>

theorem WriteCommand_carries_ctxId:
  "(m_socket e = Some s \<longrightarrow>
      WriteCommand t d e =
        Some (e\<lparr>m_commandIdCounter := m_commandIdCounter e + 2,
                m_socket := Some (Write \<lparr>type = t, ctxId = m_ctxId e,
                  commandId = m_commandIdCounter e, dataSize = of_nat (length d)\<rparr> d s)\<rparr>)
      \<and> WriteCommand_response t d r e =
        Some (e\<lparr>m_commandIdCounter := m_commandIdCounter e + 2,
                m_socket := Some (Write \<lparr>type = t, ctxId = m_ctxId e,
                  commandId = m_commandIdCounter e, dataSize = of_nat (length d)\<rparr> d s),
                m_waitResponseCommandList := m_waitResponseCommandList e @
                  [\<lparr>header = \<lparr>type = t, ctxId = m_ctxId e,
                       commandId = m_commandIdCounter e, dataSize = of_nat (length d)\<rparr>,
                    response = r\<rparr>]\<rparr>))
   \<and> m_ctxId (RemoteEngine :: 'cb RemoteEngine) = - 1
   \<and> (GetCtxId c < 0 \<and> m_socket e = Some s \<longrightarrow>
        (\<exists>s'. m_socket (handleReadCommand c False e) = Some s'
           \<and> \<not> m_isConnected s' \<and> \<not> m_socket_is_open s'))"
  using handleReadCommand_negative [of c e s]
  by (simp add: WriteCommand_eq WriteCommand_response_eq RemoteEngine_def)

text \<open>
  The witness: an engine with a socket and no identity yet sends BREAK with peerId -1; the
  peer, connected, reads that header and closes.
\<close>

theorem WriteCommand_carries_ctxId_witness:
  "m_socket example_unnamed_client = Some example_socket
   \<and> WriteCommand BREAK [] example_unnamed_client =
       Some (example_unnamed_client\<lparr>m_commandIdCounter := 4, m_socket := Some (Write
         \<lparr>type = BREAK, ctxId = - 1, commandId = 2, dataSize = 0\<rparr> [] example_socket)\<rparr>)
   \<and> GetCtxId (example_command BREAK (- 1) 2) < 0
   \<and> map_option m_isConnected
        (m_socket (handleReadCommand (example_command BREAK (- 1) 2) False example_engine))
       = Some False"
proof -
  have s: "m_socket example_unnamed_client = Some example_socket"
    by (simp add: example_unnamed_client_def)
  have s': "m_socket example_engine = Some example_socket"
    by (simp add: example_engine_def)
  have c: "GetCtxId (example_command BREAK (- 1) 2) < 0"
    by (simp add: example_command_def RemoteCommand_def GetCtxId_def)
  show ?thesis
    using WriteCommand_carries_ctxId [of example_unnamed_client example_socket BREAK "[]"
        None "example_command BREAK (- 1) 2"]
      WriteCommand_carries_ctxId [of example_engine example_socket BREAK "[]"
        None "example_command BREAK (- 1) 2"] s s' c
    by (auto simp add: example_unnamed_client_def)
qed

end
